theory Spec2Isabelle
  imports Complex_Main "HOL-Library.AList"
begin

section \<open>Urban mobility explorer: the two dashboard scripts\<close>

text \<open>
  The repository holds two browser scripts. The first one (the file whose name is not
  known, with \<open>currentPage\<close>, \<open>itemsPerPage\<close>, \<open>currentFilters\<close> and \<open>isLoading\<close>)
  draws its own bar charts and pages through the trip list with an offset; the second one
  (\<open>frontend/script.js\<close>) goes through \<open>fetchData\<close>, a response envelope with a
  \<open>success\<close> flag, and \<open>Promise.all\<close> in \<open>initDashboard\<close>.

  JavaScript numbers are modelled as \<open>int\<close> where the script counts (page numbers, the
  page size, offsets) and as \<open>real\<close> where it measures (trip counts of a chart series,
  durations, speeds); NaN and the infinities are not values of the model. Exceptions are
  values of type \<open>fault\<close>.
\<close>

datatype fault = TypeError | DivisionByZero

subsection \<open>Label humanization: \<open>formatLabel\<close>\<close>

text \<open>
  \<open>label.replace(/_/g, ' ').replace(/\b\w/g, l => l.toUpperCase())\<close>.
  Without the \<open>u\<close> flag the class \<open>\w\<close> is \<open>[A-Za-z0-9_]\<close>; \<open>\b\w\<close> matches a word
  character whose predecessor is not a word character (or that starts the string), and each
  match is one character long, so the second \<open>replace\<close> is a left-to-right pass that
  remembers whether the previous character was a word character.
\<close>

definition isWordChar :: "char \<Rightarrow> bool" where
  "isWordChar c =
     (let n = (of_char c :: nat)
      in (97 \<le> n \<and> n \<le> 122) \<or> (65 \<le> n \<and> n \<le> 90) \<or> (48 \<le> n \<and> n \<le> 57) \<or> n = 95)"

text \<open>\<open>toUpperCase\<close> on a single matched character: only \<open>a\<close>..\<open>z\<close> change.\<close>

definition toUpperCase :: "char \<Rightarrow> char" where
  "toUpperCase c =
     (let n = (of_char c :: nat)
      in if 97 \<le> n \<and> n \<le> 122 then char_of (n - 32) else c)"

definition replaceUnderscores :: "string \<Rightarrow> string" where
  "replaceUnderscores s = map (\<lambda>c. if c = CHR ''_'' then CHR '' '' else c) s"

fun capitalizeWords :: "bool \<Rightarrow> string \<Rightarrow> string" where
  "capitalizeWords prev [] = []"
| "capitalizeWords prev (c # cs) =
     (if isWordChar c \<and> \<not> prev then toUpperCase c else c) # capitalizeWords (isWordChar c) cs"

definition formatLabel :: "string \<Rightarrow> string" where
  "formatLabel label = capitalizeWords False (replaceUnderscores label)"

subsection \<open>The bar chart renderer: \<open>createBarChart\<close>\<close>

text \<open>
  A series row is a JSON object; \<open>labelKey\<close> and \<open>valueKey\<close> select its two fields, and
  the model takes the rows with the two fields already selected. The \<open>data\<close> argument is
  \<open>None\<close> when the payload has no such series (\<open>!data\<close>).

  What a container holds is either markup written through \<open>innerHTML\<close> or the bars
  appended to it. \<open>toLocaleString\<close> of the value is the browser's; the bar keeps the number.
\<close>

record series_item =
  item_label :: string
  item_value :: real

record bar =
  bar_height :: real
  bar_label :: string
  bar_value :: real

datatype container_html = Markup string | BarChart "bar list"

definition noDataMarkup :: string where
  "noDataMarkup = ''<div style=\"text-align:center;color:#999;padding:40px;\">No data available</div>''"

definition failedToLoadMarkup :: string where
  "failedToLoadMarkup = ''<div style=\"text-align:center;color:#999;padding:40px;\">Failed to load</div>''"

definition loadingMarkup :: string where
  "loadingMarkup = ''<div class=\"loading\">Loading</div>''"

text \<open>
  JavaScript's \<open>/\<close> never throws: a zero divisor gives an infinity or NaN. To state that
  the normalization never divides by zero, the model's division reports a zero divisor as
  the fault \<open>DivisionByZero\<close>.
\<close>

definition checkedDivide :: "real \<Rightarrow> real \<Rightarrow> fault + real" where
  "checkedDivide a b = (if b = 0 then Inl DivisionByZero else Inr (a / b))"

text \<open>\<open>maxValue > 0 ? (item[valueKey] / maxValue) * 100 : 0\<close>\<close>

definition heightPercent :: "real \<Rightarrow> real \<Rightarrow> fault + real" where
  "heightPercent maxValue v =
     (if maxValue > 0
      then (case checkedDivide v maxValue of Inl e \<Rightarrow> Inl e | Inr q \<Rightarrow> Inr (q * 100))
      else Inr 0)"

text \<open>The body of \<open>data.forEach\<close> for one row.\<close>

definition createBar :: "real \<Rightarrow> series_item \<Rightarrow> fault + bar" where
  "createBar maxValue item =
     (case heightPercent maxValue (item_value item) of
        Inl e \<Rightarrow> Inl e
      | Inr h \<Rightarrow> Inr \<lparr>bar_height = max h 1,
                     bar_label = formatLabel (item_label item),
                     bar_value = item_value item\<rparr>)"

fun createBars :: "real \<Rightarrow> series_item list \<Rightarrow> fault + bar list" where
  "createBars maxValue [] = Inr []"
| "createBars maxValue (item # items) =
     (case createBar maxValue item of
        Inl e \<Rightarrow> Inl e
      | Inr b \<Rightarrow> (case createBars maxValue items of
                    Inl e \<Rightarrow> Inl e
                  | Inr bs \<Rightarrow> Inr (b # bs)))"

text \<open>\<open>Math.max(...values)\<close> on the values of a series that has a first row.\<close>

definition mathMax :: "real \<Rightarrow> real list \<Rightarrow> real" where
  "mathMax v vs = fold max vs v"

definition createBarChart :: "series_item list option \<Rightarrow> fault + container_html" where
  "createBarChart data =
     (case data of
        None \<Rightarrow> Inr (Markup noDataMarkup)
      | Some [] \<Rightarrow> Inr (Markup noDataMarkup)
      | Some (d # ds) \<Rightarrow>
          (let maxValue = mathMax (item_value d) (map item_value ds)
           in case createBars maxValue (d # ds) of
                Inl e \<Rightarrow> Inl e
              | Inr bars \<Rightarrow> Inr (BarChart bars)))"

subsection \<open>View state and page of the paginated script\<close>

text \<open>
  The script's variables (\<open>currentPage\<close>, \<open>currentFilters\<close>, \<open>isLoading\<close>), the parts of
  the document it reads and writes, the requests it has sent, and the calls of its
  \<open>async\<close> functions that are suspended at an \<open>await\<close>.

  \<open>currentFilters\<close> is an object with string values: an association list in insertion
  order, written with \<open>AList.update\<close> (an assignment to an existing key keeps its place, a
  new key goes last), which is also how the spread \<open>...currentFilters\<close> copies it into the
  parameter object.
\<close>

text \<open>
  A request is kept as the path behind \<open>API_BASE_URL\<close> and the entries handed to
  \<open>URLSearchParams\<close>, which prints a number in decimal and escapes a string.
\<close>

datatype param_value = PNum int | PStr string

record request =
  req_path :: string
  req_params :: "(string \<times> param_value) list"

text \<open>
  A fetched value: \<open>FetchFailed\<close> when \<open>fetch\<close> or \<open>response.json()\<close> rejects (no
  connection, a body that is not JSON), \<open>Parsed\<close> with the JSON value otherwise.
\<close>

datatype 'a fetched = FetchFailed | Parsed 'a

text \<open>
  The statistics object. \<open>toLocaleString\<close> and \<open>toFixed\<close> are called on each field, so a
  field that is absent (\<open>None\<close>) throws a TypeError there.
\<close>

record stats_json =
  total_trips :: "real option"
  avg_duration_minutes :: "real option"
  avg_distance_miles :: "real option"
  avg_speed_mph :: "real option"

text \<open>
  A trip of the list. \<open>toFixed\<close> is called on the three measures (an absent one throws);
  the identifier and the passenger count are interpolated as they are; an absent or empty
  category falls back through \<open>||\<close>.
\<close>

record trip =
  trip_id :: int
  pickup_datetime :: string
  trip_duration_minutes :: "real option"
  trip_distance_miles :: "real option"
  trip_avg_speed_mph :: "real option"
  passenger_count :: int
  time_of_day :: "string option"
  speed_category :: "string option"

text \<open>
  The body of \<open>/api/trips\<close>: an array of trips, or some other JSON value (an error
  object, say), whose \<open>length\<close> is not \<open>0\<close> and which has no \<open>map\<close>.
\<close>

datatype trips_json = TripArray "trip list" | NotAnArray

text \<open>
  One table row. The numbers are kept as numbers (\<open>toFixed(2)\<close> prints them), and the
  pickup time as the string handed to \<open>formatDateTime\<close>, which only calls \<open>Date\<close> and
  \<open>toLocaleString\<close> of the browser.
\<close>

record table_row =
  row_id :: int
  row_pickup :: string
  row_duration :: real
  row_distance :: real
  row_speed :: real
  row_passengers :: int
  row_time_class :: string
  row_time_label :: string
  row_speed_class :: string
  row_speed_label :: string

datatype table_html =
  TableMarkup string
  | TripsTable "table_row list"

datatype stat_html =
  StatMarkup string
  | StatCount real
  | StatFixed2 real string

text \<open>Who waits for a suspended \<open>loadTrips\<close>: \<open>applyFilters\<close> awaits it, the others do not.\<close>

datatype caller = AwaitedByApplyFilters | NotAwaited

record page =
  currentPage :: int
  currentFilters :: "(string \<times> string) list"
  isLoading :: bool
  timeOfDay :: string
  speedCategory :: string
  minDistance :: string
  maxDistance :: string
  applyBtn_disabled :: bool
  applyBtn_text :: string
  prevBtn_disabled :: bool
  nextBtn_disabled :: bool
  tableContainer :: table_html
  currentPage_text :: "int option"
  totalTrips :: stat_html
  avgDuration :: stat_html
  avgDistance :: stat_html
  avgSpeed :: stat_html
  timeChart :: container_html
  speedChart :: container_html
  errorBanners :: "string list"
  console :: "string list"
  requests :: "request list"
  pendingTrips :: "caller list"
  pendingStatistics :: bool
  pendingTimeChart :: bool
  pendingSpeedChart :: bool
  pendingCharts :: bool

definition itemsPerPage :: int where
  "itemsPerPage = 50"

text \<open>
  The script's top level, run on a document \<open>doc\<close>: the three variables get their initial
  values and nothing is suspended.
\<close>

definition initialPage :: "page \<Rightarrow> page" where
  "initialPage doc =
     doc\<lparr>currentPage := 1, currentFilters := [], isLoading := False,
         requests := [], console := [], pendingTrips := [],
         pendingStatistics := False, pendingTimeChart := False,
         pendingSpeedChart := False, pendingCharts := False\<rparr>"

definition fetch :: "string \<Rightarrow> (string \<times> param_value) list \<Rightarrow> page \<Rightarrow> page" where
  "fetch path params s = s\<lparr>requests := requests s @ [\<lparr>req_path = path, req_params = params\<rparr>]\<rparr>"

text \<open>\<open>{ limit: itemsPerPage, offset: offset, ...currentFilters }\<close>\<close>

definition spread :: "(string \<times> 'v) list \<Rightarrow> (string \<times> 'v) list \<Rightarrow> (string \<times> 'v) list" where
  "spread obj src = fold (\<lambda>(k, v). AList.update k v) src obj"

definition tripsParams :: "int \<Rightarrow> (string \<times> string) list \<Rightarrow> (string \<times> param_value) list" where
  "tripsParams page filters =
     (let offset = (page - 1) * itemsPerPage
      in spread [(''limit'', PNum itemsPerPage), (''offset'', PNum offset)]
           (map (\<lambda>(k, v). (k, PStr v)) filters))"

subsection \<open>\<open>showError\<close>, \<open>loadStatistics\<close>\<close>

text \<open>
  \<open>showError\<close> inserts a banner and sets a timer that removes it; the timer firing is the
  event \<open>BannerExpires\<close> below.
\<close>

definition showError :: "string \<Rightarrow> page \<Rightarrow> page" where
  "showError message s = s\<lparr>errorBanners := errorBanners s @ [message]\<rparr>"

definition loadStatistics :: "page \<Rightarrow> page" where
  "loadStatistics s = (fetch ''/api/stats'' [] s)\<lparr>pendingStatistics := True\<rparr>"

definition loadStatistics_catch :: "page \<Rightarrow> page" where
  "loadStatistics_catch s =
     showError ''Failed to load statistics'' (s\<lparr>console := console s @ [''Error loading statistics:'']\<rparr>)"

text \<open>
  The four assignments run in order; a field that is absent throws at its assignment, with
  the earlier tiles already written.
\<close>

definition loadStatistics_resume :: "stats_json fetched \<Rightarrow> page \<Rightarrow> page" where
  "loadStatistics_resume r s0 =
     (let s = s0\<lparr>pendingStatistics := False\<rparr>
      in case r of
           FetchFailed \<Rightarrow> loadStatistics_catch s
         | Parsed data \<Rightarrow>
             (case total_trips data of
                None \<Rightarrow> loadStatistics_catch s
              | Some n \<Rightarrow>
                  (let s1 = s\<lparr>totalTrips := StatCount n\<rparr>
                   in case avg_duration_minutes data of
                        None \<Rightarrow> loadStatistics_catch s1
                      | Some d \<Rightarrow>
                          (let s2 = s1\<lparr>avgDuration := StatFixed2 d ''min''\<rparr>
                           in case avg_distance_miles data of
                                None \<Rightarrow> loadStatistics_catch s2
                              | Some m \<Rightarrow>
                                  (let s3 = s2\<lparr>avgDistance := StatFixed2 m ''mi''\<rparr>
                                   in case avg_speed_mph data of
                                        None \<Rightarrow> loadStatistics_catch s3
                                      | Some v \<Rightarrow> s3\<lparr>avgSpeed := StatFixed2 v ''mph''\<rparr>)))))"

subsection \<open>\<open>loadCharts\<close>, \<open>loadTimeChart\<close>, \<open>loadSpeedChart\<close>\<close>

text \<open>
  Each chart loader runs to its \<open>await fetch\<close>; \<open>loadCharts\<close> then waits for both
  (\<open>Promise.all\<close>). The payload of a chart endpoint is an object whose series
  (\<open>by_time_of_day\<close>, \<open>speed_distribution\<close>) may be absent.
\<close>

definition loadTimeChart :: "page \<Rightarrow> page" where
  "loadTimeChart s =
     (fetch ''/api/patterns/time'' [] (s\<lparr>timeChart := Markup loadingMarkup\<rparr>))\<lparr>pendingTimeChart := True\<rparr>"

definition loadSpeedChart :: "page \<Rightarrow> page" where
  "loadSpeedChart s =
     (fetch ''/api/patterns/speed'' [] (s\<lparr>speedChart := Markup loadingMarkup\<rparr>))\<lparr>pendingSpeedChart := True\<rparr>"

definition loadCharts :: "page \<Rightarrow> page" where
  "loadCharts s =
     (if isLoading s then s
      else (loadSpeedChart (loadTimeChart (s\<lparr>isLoading := True\<rparr>)))\<lparr>pendingCharts := True\<rparr>)"

text \<open>
  After a chart loader has finished: when \<open>loadCharts\<close> is waiting and neither loader is
  suspended any more, \<open>Promise.all\<close> is fulfilled (the loaders catch their own errors, so it
  is never rejected) and the \<open>finally\<close> block of \<open>loadCharts\<close> runs.
\<close>

definition loadCharts_resume :: "page \<Rightarrow> page" where
  "loadCharts_resume s =
     (if pendingCharts s \<and> \<not> pendingTimeChart s \<and> \<not> pendingSpeedChart s
      then s\<lparr>isLoading := False, pendingCharts := False\<rparr>
      else s)"

definition chartContent :: "series_item list option fetched \<Rightarrow> container_html" where
  "chartContent r =
     (case r of
        FetchFailed \<Rightarrow> Markup failedToLoadMarkup
      | Parsed series \<Rightarrow>
          (case createBarChart series of
             Inl e \<Rightarrow> Markup failedToLoadMarkup
           | Inr html \<Rightarrow> html))"

definition loadTimeChart_resume :: "series_item list option fetched \<Rightarrow> page \<Rightarrow> page" where
  "loadTimeChart_resume r s =
     loadCharts_resume (s\<lparr>timeChart := chartContent r, pendingTimeChart := False\<rparr>)"

definition loadSpeedChart_resume :: "series_item list option fetched \<Rightarrow> page \<Rightarrow> page" where
  "loadSpeedChart_resume r s =
     loadCharts_resume (s\<lparr>speedChart := chartContent r, pendingSpeedChart := False\<rparr>)"

subsection \<open>\<open>loadTrips\<close>\<close>

definition loadingTripsMarkup :: string where
  "loadingTripsMarkup = ''<div class=\"loading\">Loading trips data</div>''"

definition noTripsMarkup :: string where
  "noTripsMarkup = ''<div class=\"loading\">No trips found</div>''"

definition tripsErrorMarkup :: string where
  "tripsErrorMarkup = ''<div class=\"error\">Failed to load trips data</div>''"

text \<open>\<open>x || fallback\<close> on a string that may be absent: absent and empty are both falsy.\<close>

definition orElse :: "string option \<Rightarrow> string \<Rightarrow> string" where
  "orElse x fallback = (case x of None \<Rightarrow> fallback | Some v \<Rightarrow> if v = [] then fallback else v)"

text \<open>One \<open><tr>\<close> of the template; \<open>toFixed\<close> on an absent measure throws.\<close>

definition renderRow :: "trip \<Rightarrow> fault + table_row" where
  "renderRow t =
     (case trip_duration_minutes t of
        None \<Rightarrow> Inl TypeError
      | Some duration \<Rightarrow>
          (case trip_distance_miles t of
             None \<Rightarrow> Inl TypeError
           | Some distance \<Rightarrow>
               (case trip_avg_speed_mph t of
                  None \<Rightarrow> Inl TypeError
                | Some speed \<Rightarrow>
                    Inr \<lparr>row_id = trip_id t,
                         row_pickup = pickup_datetime t,
                         row_duration = duration,
                         row_distance = distance,
                         row_speed = speed,
                         row_passengers = passenger_count t,
                         row_time_class = ''time-'' @ orElse (time_of_day t) ''unknown'',
                         row_time_label = formatLabel (orElse (time_of_day t) ''Unknown''),
                         row_speed_class = ''speed-'' @ orElse (speed_category t) ''unknown'',
                         row_speed_label = formatLabel (orElse (speed_category t) ''Unknown'')\<rparr>)))"

fun renderRows :: "trip list \<Rightarrow> fault + table_row list" where
  "renderRows [] = Inr []"
| "renderRows (t # ts) =
     (case renderRow t of
        Inl e \<Rightarrow> Inl e
      | Inr r \<Rightarrow> (case renderRows ts of
                    Inl e \<Rightarrow> Inl e
                  | Inr rs \<Rightarrow> Inr (r # rs)))"

text \<open>The \<open>finally\<close> block of \<open>applyFilters\<close>, run when the awaited \<open>loadTrips\<close> has returned.\<close>

definition applyFilters_finally :: "page \<Rightarrow> page" where
  "applyFilters_finally s = s\<lparr>applyBtn_disabled := False, applyBtn_text := ''Apply Filters''\<rparr>"

text \<open>
  \<open>loadTrips\<close> up to its \<open>await fetch\<close>. The argument says who holds the promise it
  returns. Behind the guard the promise is already settled, so an awaiting \<open>applyFilters\<close>
  goes on at once; otherwise the call is suspended with its request sent.
\<close>

definition loadTrips :: "caller \<Rightarrow> page \<Rightarrow> page" where
  "loadTrips c s =
     (if isLoading s
      then (case c of AwaitedByApplyFilters \<Rightarrow> applyFilters_finally s | NotAwaited \<Rightarrow> s)
      else (let s1 = s\<lparr>isLoading := True,
                         tableContainer := TableMarkup loadingTripsMarkup,
                         prevBtn_disabled := True,
                         nextBtn_disabled := True\<rparr>;
                s2 = fetch ''/api/trips'' (tripsParams (currentPage s1) (currentFilters s1)) s1
            in s2\<lparr>pendingTrips := pendingTrips s2 @ [c]\<rparr>))"

definition loadTrips_catch :: "page \<Rightarrow> page" where
  "loadTrips_catch s =
     s\<lparr>console := console s @ [''Error loading trips:''],
       tableContainer := TableMarkup tripsErrorMarkup,
       prevBtn_disabled := False,
       nextBtn_disabled := False\<rparr>"

text \<open>The \<open>try\<close> block from the response on, with its \<open>catch\<close>.\<close>

definition loadTrips_try :: "trips_json fetched \<Rightarrow> page \<Rightarrow> page" where
  "loadTrips_try r s =
     (case r of
        FetchFailed \<Rightarrow> loadTrips_catch s
      | Parsed NotAnArray \<Rightarrow> loadTrips_catch s
      | Parsed (TripArray trips) \<Rightarrow>
          (if length trips = 0
           then s\<lparr>tableContainer := TableMarkup noTripsMarkup,
                  prevBtn_disabled := (currentPage s \<le> 1),
                  nextBtn_disabled := True\<rparr>
           else (case renderRows trips of
                   Inl e \<Rightarrow> loadTrips_catch s
                 | Inr rows \<Rightarrow>
                     s\<lparr>tableContainer := TripsTable rows,
                       currentPage_text := Some (currentPage s),
                       prevBtn_disabled := (currentPage s \<le> 1),
                       nextBtn_disabled := (int (length trips) < itemsPerPage)\<rparr>)))"

text \<open>\<open>try\<close>, \<open>catch\<close> and \<open>finally\<close> of one suspended call, given its response.\<close>

definition loadTrips_complete :: "trips_json fetched \<Rightarrow> page \<Rightarrow> page" where
  "loadTrips_complete r s = (loadTrips_try r s)\<lparr>isLoading := False\<rparr>"

definition removeAt :: "nat \<Rightarrow> 'a list \<Rightarrow> 'a list" where
  "removeAt i xs = take i xs @ drop (Suc i) xs"

text \<open>
  The response for the suspended call number \<open>i\<close> arrives: the call completes, and then
  whoever awaits it goes on.
\<close>

definition loadTrips_resume :: "nat \<Rightarrow> trips_json fetched \<Rightarrow> page \<Rightarrow> page" where
  "loadTrips_resume i r s =
     (if i < length (pendingTrips s)
      then (let c = pendingTrips s ! i;
                s1 = loadTrips_complete r (s\<lparr>pendingTrips := removeAt i (pendingTrips s)\<rparr>)
            in case c of AwaitedByApplyFilters \<Rightarrow> applyFilters_finally s1 | NotAwaited \<Rightarrow> s1)
      else s)"

subsection \<open>The user's actions\<close>

text \<open>\<open>if (value) currentFilters.key = value\<close>: the empty string is the only falsy string.\<close>

definition setFilter :: "string \<Rightarrow> string \<Rightarrow> page \<Rightarrow> page" where
  "setFilter key v s =
     (if v \<noteq> [] then s\<lparr>currentFilters := AList.update key v (currentFilters s)\<rparr> else s)"

definition applyFilters :: "page \<Rightarrow> page" where
  "applyFilters s =
     (if isLoading s then s
      else (let s1 = s\<lparr>applyBtn_disabled := True, applyBtn_text := ''Applying...''\<rparr>;
                s2 = s1\<lparr>currentFilters := []\<rparr>;
                s3 = setFilter ''time_of_day'' (timeOfDay s2) s2;
                s4 = setFilter ''speed_category'' (speedCategory s3) s3;
                s5 = setFilter ''min_distance'' (minDistance s4) s4;
                s6 = setFilter ''max_distance'' (maxDistance s5) s5;
                s7 = s6\<lparr>currentPage := 1\<rparr>
            in loadTrips AwaitedByApplyFilters s7))"

definition resetFilters :: "page \<Rightarrow> page" where
  "resetFilters s =
     loadTrips NotAwaited
       (s\<lparr>timeOfDay := [], speedCategory := [], minDistance := [], maxDistance := [],
          currentFilters := [], currentPage := 1\<rparr>)"

definition nextPage :: "page \<Rightarrow> page" where
  "nextPage s =
     (if \<not> isLoading s then loadTrips NotAwaited (s\<lparr>currentPage := currentPage s + 1\<rparr>) else s)"

definition previousPage :: "page \<Rightarrow> page" where
  "previousPage s =
     (if currentPage s > 1 \<and> \<not> isLoading s
      then loadTrips NotAwaited (s\<lparr>currentPage := currentPage s - 1\<rparr>)
      else s)"

text \<open>The \<open>DOMContentLoaded\<close> listener: three calls in a row, none awaited.\<close>

definition domContentLoaded :: "page \<Rightarrow> page" where
  "domContentLoaded s = loadTrips NotAwaited (loadCharts (loadStatistics s))"

subsection \<open>The event loop of the paginated script\<close>

text \<open>
  Between two events the script does not run. An event is an action of the user (a click
  on one of the four buttons, an edit of one of the four filter controls), the arrival of
  the response a suspended call waits for, or the timer of an error banner. An arrival for
  a call that is not suspended does not happen and changes nothing. A click calls the
  handler whether or not the button is disabled, so the runs of the model include those
  of the page.
\<close>

datatype filter_control = TimeOfDay | SpeedCategory | MinDistance | MaxDistance

datatype event =
  ClickNext
  | ClickPrevious
  | ClickApply
  | ClickReset
  | Edit filter_control string
  | StatisticsArrive "stats_json fetched"
  | TimeChartArrive "series_item list option fetched"
  | SpeedChartArrive "series_item list option fetched"
  | TripsArrive nat "trips_json fetched"
  | BannerExpires

fun edit :: "filter_control \<Rightarrow> string \<Rightarrow> page \<Rightarrow> page" where
  "edit TimeOfDay v s = s\<lparr>timeOfDay := v\<rparr>"
| "edit SpeedCategory v s = s\<lparr>speedCategory := v\<rparr>"
| "edit MinDistance v s = s\<lparr>minDistance := v\<rparr>"
| "edit MaxDistance v s = s\<lparr>maxDistance := v\<rparr>"

fun step :: "event \<Rightarrow> page \<Rightarrow> page" where
  "step ClickNext s = nextPage s"
| "step ClickPrevious s = previousPage s"
| "step ClickApply s = applyFilters s"
| "step ClickReset s = resetFilters s"
| "step (Edit c v) s = edit c v s"
| "step (StatisticsArrive r) s = (if pendingStatistics s then loadStatistics_resume r s else s)"
| "step (TimeChartArrive r) s = (if pendingTimeChart s then loadTimeChart_resume r s else s)"
| "step (SpeedChartArrive r) s = (if pendingSpeedChart s then loadSpeedChart_resume r s else s)"
| "step (TripsArrive i r) s = loadTrips_resume i r s"
| "step BannerExpires s = s\<lparr>errorBanners := tl (errorBanners s)\<rparr>"

fun run :: "event list \<Rightarrow> page \<Rightarrow> page" where
  "run [] s = s"
| "run (e # es) s = run es (step e s)"

subsection \<open>The dashboard script \<open>frontend/script.js\<close>: data\<close>

text \<open>
  Text the script writes is a template string; its pieces are literal text and numbers
  printed as they are, by \<open>toLocaleString\<close>, or by \<open>toFixed\<close> with a number of digits.
\<close>

datatype piece = Lit string | Shown int | Plain real | Localized real | Fixed nat real

type_synonym template = "piece list"

text \<open>
  The payloads of the endpoints, with the fields the script reads. The envelope is
  \<open>{ success, <payload key> }\<close>; a body without the payload key has \<open>payload = None\<close>.
  A body that is falsy, or has no \<open>success\<close>, behaves as one with \<open>success = False\<close>.
\<close>

record dash_stats =
  ds_total_trips :: real
  ds_avg_duration_minutes :: real
  ds_avg_speed_kmh :: real
  ds_most_common_passenger_count :: int

record hour_row =
  pickup_hour :: int
  hour_trip_count :: real

record day_row =
  day_name :: string
  day_trip_count :: real

record speed_row =
  speed_pickup_hour :: int
  avg_speed :: real

record duration_row =
  duration_range :: string
  duration_trip_count :: real

record dash_trip =
  dt_trip_id :: int
  dt_pickup_datetime :: string
  dt_trip_duration :: real
  dt_trip_speed_kmh :: real
  dt_passenger_count :: int
  dt_distance_category :: string

record 'p envelope =
  success :: bool
  payload :: "'p option"

text \<open>
  A chart of the chart library: its type, the canvas it is bound to, labels, the label of
  its one dataset (the pie chart has none) and the data. The colours and the axis options
  are constants of the script and are left out.
\<close>

record chart =
  chart_type :: string
  chart_canvas :: string
  chart_labels :: "template list"
  chart_dataset_label :: "string option"
  chart_data :: "piece list"

record trips_row =
  tr_trip_id :: int
  tr_pickupTime :: string
  tr_durationMin :: piece
  tr_speed :: piece
  tr_passenger_count :: int
  tr_distance_category :: string

text \<open>
  The seven loaders \<open>initDashboard\<close> starts, and the state of the promise each returned.
\<close>

datatype loader = Stats | HourlyChart | DailyChart | SpeedChart | DurationChart | Trips | Insights

datatype promise = NotStarted | Pending | Fulfilled | Rejected

record dashboard =
  overlayHidden :: bool
  el_total_trips :: template
  el_avg_duration :: template
  el_avg_speed :: template
  el_common_passengers :: template
  el_trips_tbody :: "trips_row list"
  el_trips_count :: template
  el_insight_peak_hours :: template
  el_insight_speed :: template
  el_insight_weekly :: template
  hourlyChart :: "chart option"
  dailyChart :: "chart option"
  speedChart_dash :: "chart option"
  durationChart :: "chart option"
  destroyedCharts :: "chart list"
  alerts :: "string list"
  consoleErrors :: "string list"
  consoleLogs :: "string list"
  fetches :: "string list"
  status :: "loader \<Rightarrow> promise"
  insightsStage :: nat
  initDashboardWaiting :: bool

definition API_URL :: string where
  "API_URL = ''http://localhost:5000/api''"

definition showLoading :: "dashboard \<Rightarrow> dashboard" where
  "showLoading s = s\<lparr>overlayHidden := False\<rparr>"

definition hideLoading :: "dashboard \<Rightarrow> dashboard" where
  "hideLoading s = s\<lparr>overlayHidden := True\<rparr>"

subsection \<open>\<open>fetchData\<close>\<close>

text \<open>
  \<open>fetchData\<close> up to its \<open>await fetch\<close> sends the request; from the response on it
  returns the parsed body, or logs, alerts and returns \<open>null\<close> (\<open>None\<close>) when the fetch
  or the parsing failed. Between its two \<open>await\<close>s it touches nothing, so the two are
  one step.
\<close>

definition backendAlert :: string where
  "backendAlert = ''Error connecting to backend. Make sure the server is running!''"

definition fetchData_send :: "string \<Rightarrow> dashboard \<Rightarrow> dashboard" where
  "fetchData_send endpoint s = s\<lparr>fetches := fetches s @ [API_URL @ endpoint]\<rparr>"

definition fetchData :: "'p envelope fetched \<Rightarrow> dashboard \<Rightarrow> dashboard \<times> 'p envelope option" where
  "fetchData r s =
     (case r of
        FetchFailed \<Rightarrow>
          (s\<lparr>consoleErrors := consoleErrors s @ [''Error fetching data:''],
             alerts := alerts s @ [backendAlert]\<rparr>, None)
      | Parsed data \<Rightarrow> (s, Some data))"

text \<open>
  \<open>if (data && data.success) { ... }\<close>: the body runs on the payload, and may throw; the
  second component of the result is the fault thrown, if any.
\<close>

definition whenSuccessful ::
  "'p envelope option \<Rightarrow> ('p option \<Rightarrow> dashboard \<Rightarrow> dashboard \<times> fault option) \<Rightarrow>
   dashboard \<Rightarrow> dashboard \<times> fault option" where
  "whenSuccessful data body s =
     (case data of
        None \<Rightarrow> (s, None)
      | Some d \<Rightarrow> if success d then body (payload d) s else (s, None))"

subsection \<open>The loaders, from the response on\<close>

text \<open>The hour labels of the two hourly charts and of the insights.\<close>

definition hourLabel :: "int \<Rightarrow> template" where
  "hourLabel hour =
     (if hour = 0 then [Lit ''12 AM'']
      else if hour < 12 then [Shown hour, Lit '' AM'']
      else if hour = 12 then [Lit ''12 PM'']
      else [Shown (hour - 12), Lit '' PM''])"

definition loadStats_body :: "dash_stats option \<Rightarrow> dashboard \<Rightarrow> dashboard \<times> fault option" where
  "loadStats_body p s =
     (case p of
        None \<Rightarrow> (s, Some TypeError)
      | Some stats \<Rightarrow>
          (s\<lparr>el_total_trips := [Localized (ds_total_trips stats)],
             el_avg_duration := [Fixed 1 (ds_avg_duration_minutes stats), Lit '' min''],
             el_avg_speed := [Fixed 1 (ds_avg_speed_kmh stats), Lit '' km/h''],
             el_common_passengers := [Shown (ds_most_common_passenger_count stats)]\<rparr>, None))"

definition loadStats_resume :: "dash_stats envelope fetched \<Rightarrow> dashboard \<Rightarrow> dashboard \<times> fault option" where
  "loadStats_resume r s = (let (s1, data) = fetchData r s in whenSuccessful data loadStats_body s1)"

text \<open>\<open>if (chart) chart.destroy()\<close> on one of the four chart variables.\<close>

definition destroyOld :: "chart option \<Rightarrow> dashboard \<Rightarrow> dashboard" where
  "destroyOld old s =
     (case old of None \<Rightarrow> s | Some c \<Rightarrow> s\<lparr>destroyedCharts := destroyedCharts s @ [c]\<rparr>)"

definition loadHourlyChart_body :: "hour_row list option \<Rightarrow> dashboard \<Rightarrow> dashboard \<times> fault option" where
  "loadHourlyChart_body p s =
     (case p of
        None \<Rightarrow> (s, Some TypeError)
      | Some hours \<Rightarrow>
          (let labels = map (\<lambda>h. hourLabel (pickup_hour h)) hours;
               counts = map (\<lambda>h. Plain (hour_trip_count h)) hours;
               s1 = destroyOld (hourlyChart s) s
           in (s1\<lparr>hourlyChart :=
                     Some \<lparr>chart_type = ''bar'', chart_canvas = ''hourly-chart'',
                           chart_labels = labels,
                           chart_dataset_label = Some ''Number of Trips'',
                           chart_data = counts\<rparr>\<rparr>, None)))"

definition loadHourlyChart_resume :: "hour_row list envelope fetched \<Rightarrow> dashboard \<Rightarrow> dashboard \<times> fault option" where
  "loadHourlyChart_resume r s =
     (let (s1, data) = fetchData r s in whenSuccessful data loadHourlyChart_body s1)"

definition loadDailyChart_body :: "day_row list option \<Rightarrow> dashboard \<Rightarrow> dashboard \<times> fault option" where
  "loadDailyChart_body p s =
     (case p of
        None \<Rightarrow> (s, Some TypeError)
      | Some stats \<Rightarrow>
          (let labels = map (\<lambda>d. [Lit (day_name d)]) stats;
               counts = map (\<lambda>d. Plain (day_trip_count d)) stats;
               s1 = destroyOld (dailyChart s) s
           in (s1\<lparr>dailyChart :=
                     Some \<lparr>chart_type = ''line'', chart_canvas = ''daily-chart'',
                           chart_labels = labels,
                           chart_dataset_label = Some ''Number of Trips'',
                           chart_data = counts\<rparr>\<rparr>, None)))"

definition loadDailyChart_resume :: "day_row list envelope fetched \<Rightarrow> dashboard \<Rightarrow> dashboard \<times> fault option" where
  "loadDailyChart_resume r s =
     (let (s1, data) = fetchData r s in whenSuccessful data loadDailyChart_body s1)"

definition loadSpeedChart_body :: "speed_row list option \<Rightarrow> dashboard \<Rightarrow> dashboard \<times> fault option" where
  "loadSpeedChart_body p s =
     (case p of
        None \<Rightarrow> (s, Some TypeError)
      | Some speeds \<Rightarrow>
          (let labels = map (\<lambda>v. hourLabel (speed_pickup_hour v)) speeds;
               avgSpeeds = map (\<lambda>v. Fixed 2 (avg_speed v)) speeds;
               s1 = destroyOld (speedChart_dash s) s
           in (s1\<lparr>speedChart_dash :=
                     Some \<lparr>chart_type = ''line'', chart_canvas = ''speed-chart'',
                           chart_labels = labels,
                           chart_dataset_label = Some ''Average Speed (km/h)'',
                           chart_data = avgSpeeds\<rparr>\<rparr>, None)))"

definition loadSpeedChart_dash_resume :: "speed_row list envelope fetched \<Rightarrow> dashboard \<Rightarrow> dashboard \<times> fault option" where
  "loadSpeedChart_dash_resume r s =
     (let (s1, data) = fetchData r s in whenSuccessful data loadSpeedChart_body s1)"

definition loadDurationChart_body :: "duration_row list option \<Rightarrow> dashboard \<Rightarrow> dashboard \<times> fault option" where
  "loadDurationChart_body p s =
     (case p of
        None \<Rightarrow> (s, Some TypeError)
      | Some distribution \<Rightarrow>
          (let labels = map (\<lambda>d. [Lit (duration_range d)]) distribution;
               counts = map (\<lambda>d. Plain (duration_trip_count d)) distribution;
               s1 = destroyOld (durationChart s) s
           in (s1\<lparr>durationChart :=
                     Some \<lparr>chart_type = ''pie'', chart_canvas = ''duration-chart'',
                           chart_labels = labels,
                           chart_dataset_label = None,
                           chart_data = counts\<rparr>\<rparr>, None)))"

definition loadDurationChart_resume :: "duration_row list envelope fetched \<Rightarrow> dashboard \<Rightarrow> dashboard \<times> fault option" where
  "loadDurationChart_resume r s =
     (let (s1, data) = fetchData r s in whenSuccessful data loadDurationChart_body s1)"

text \<open>
  The trip table. The body is emptied before \<open>trips.length\<close> is read, so a body
  without \<open>trips\<close> throws with the table already empty.
\<close>

definition tripRow :: "dash_trip \<Rightarrow> trips_row" where
  "tripRow trip =
     \<lparr>tr_trip_id = dt_trip_id trip,
      tr_pickupTime = dt_pickup_datetime trip,
      tr_durationMin = Fixed 1 (dt_trip_duration trip / 60),
      tr_speed = Fixed 1 (dt_trip_speed_kmh trip),
      tr_passenger_count = dt_passenger_count trip,
      tr_distance_category = dt_distance_category trip\<rparr>"

definition loadTrips_dash_body :: "dash_trip list option \<Rightarrow> dashboard \<Rightarrow> dashboard \<times> fault option" where
  "loadTrips_dash_body p s =
     (let s1 = s\<lparr>el_trips_tbody := []\<rparr>
      in case p of
           None \<Rightarrow> (s1, Some TypeError)
         | Some trips \<Rightarrow>
             (s1\<lparr>el_trips_count := [Shown (int (length trips))],
                 el_trips_tbody := map tripRow trips\<rparr>, None))"

definition loadTrips_dash_resume :: "dash_trip list envelope fetched \<Rightarrow> dashboard \<Rightarrow> dashboard \<times> fault option" where
  "loadTrips_dash_resume r s =
     (let (s1, data) = fetchData r s in whenSuccessful data loadTrips_dash_body s1)"

subsection \<open>\<open>generateInsights\<close>\<close>

text \<open>
  Three fetches in a row, each awaited before the next is sent. \<open>hours[0]\<close>,
  \<open>speeds[0]\<close> and \<open>stats[0]\<close> are \<open>undefined\<close> on an empty array, and reading a
  field of them throws, which ends \<open>generateInsights\<close> there.
\<close>

definition insightPeakHours_body :: "hour_row list option \<Rightarrow> dashboard \<Rightarrow> dashboard \<times> fault option" where
  "insightPeakHours_body p s =
     (case p of
        None \<Rightarrow> (s, Some TypeError)
      | Some [] \<Rightarrow> (s, Some TypeError)
      | Some (topHour # rest) \<Rightarrow>
          (s\<lparr>el_insight_peak_hours :=
               [Lit ''The busiest hour is ''] @ hourLabel (pickup_hour topHour) @
               [Lit '' with '', Localized (hour_trip_count topHour),
                Lit '' trips. This represents peak demand time in NYC, likely due to commuting patterns or nightlife activity.'']\<rparr>,
           None))"

text \<open>The loop over \<open>speeds\<close> from index 1 keeps the fastest and the slowest row so far.\<close>

definition fastestOf :: "speed_row \<Rightarrow> speed_row list \<Rightarrow> speed_row" where
  "fastestOf first rest = fold (\<lambda>v best. if avg_speed v > avg_speed best then v else best) rest first"

definition slowestOf :: "speed_row \<Rightarrow> speed_row list \<Rightarrow> speed_row" where
  "slowestOf first rest = fold (\<lambda>v best. if avg_speed v < avg_speed best then v else best) rest first"

definition insightSpeed_body :: "speed_row list option \<Rightarrow> dashboard \<Rightarrow> dashboard \<times> fault option" where
  "insightSpeed_body p s =
     (case p of
        None \<Rightarrow> (s, Some TypeError)
      | Some [] \<Rightarrow> (s, Some TypeError)
      | Some (first # rest) \<Rightarrow>
          (let fastest = fastestOf first rest;
               slowest = slowestOf first rest
           in (s\<lparr>el_insight_speed :=
                    [Lit ''Fastest trips occur at ''] @ hourLabel (speed_pickup_hour fastest) @
                    [Lit '' ('', Fixed 1 (avg_speed fastest),
                     Lit '' km/h) with less traffic. Slowest at ''] @
                    hourLabel (speed_pickup_hour slowest) @
                    [Lit '' ('', Fixed 1 (avg_speed slowest),
                     Lit '' km/h), indicating heavy congestion during rush hours.'']\<rparr>,
               None)))"

definition busiestOf :: "day_row \<Rightarrow> day_row list \<Rightarrow> day_row" where
  "busiestOf first rest =
     fold (\<lambda>d best. if day_trip_count d > day_trip_count best then d else best) rest first"

definition quietestOf :: "day_row \<Rightarrow> day_row list \<Rightarrow> day_row" where
  "quietestOf first rest =
     fold (\<lambda>d best. if day_trip_count d < day_trip_count best then d else best) rest first"

definition insightWeekly_body :: "day_row list option \<Rightarrow> dashboard \<Rightarrow> dashboard \<times> fault option" where
  "insightWeekly_body p s =
     (case p of
        None \<Rightarrow> (s, Some TypeError)
      | Some [] \<Rightarrow> (s, Some TypeError)
      | Some (first # rest) \<Rightarrow>
          (let busiest = busiestOf first rest;
               quietest = quietestOf first rest
           in (s\<lparr>el_insight_weekly :=
                    [Lit (day_name busiest), Lit '' is the busiest day with '',
                     Localized (day_trip_count busiest), Lit '' trips, while '',
                     Lit (day_name quietest), Lit '' is quietest with '',
                     Localized (day_trip_count quietest),
                     Lit '' trips. This shows clear weekday vs weekend patterns in urban mobility.'']\<rparr>,
               None)))"

datatype insights_response =
  PeakHoursResponse "hour_row list envelope fetched"
  | SpeedResponse "speed_row list envelope fetched"
  | WeeklyResponse "day_row list envelope fetched"

definition outcome :: "fault option \<Rightarrow> promise" where
  "outcome thrown = (case thrown of None \<Rightarrow> Fulfilled | Some e \<Rightarrow> Rejected)"

text \<open>
  One step of \<open>generateInsights\<close>: the response for the fetch of the current stage
  arrives. Unless the insight throws, the next fetch is sent and the promise stays
  pending, or, after the third insight, is fulfilled.
\<close>

definition generateInsights_resume :: "insights_response \<Rightarrow> dashboard \<Rightarrow> dashboard \<times> promise" where
  "generateInsights_resume resp s =
     (case resp of
        PeakHoursResponse r \<Rightarrow>
          (if insightsStage s = 0
           then (let (s1, hourlyData) = fetchData r s;
                     (s2, thrown) = whenSuccessful hourlyData insightPeakHours_body s1
                 in case thrown of
                      Some e \<Rightarrow> (s2, Rejected)
                    | None \<Rightarrow> ((fetchData_send ''/analytics/speed-by-hour'' s2)\<lparr>insightsStage := 1\<rparr>, Pending))
           else (s, Pending))
      | SpeedResponse r \<Rightarrow>
          (if insightsStage s = 1
           then (let (s1, speedData) = fetchData r s;
                     (s2, thrown) = whenSuccessful speedData insightSpeed_body s1
                 in case thrown of
                      Some e \<Rightarrow> (s2, Rejected)
                    | None \<Rightarrow> ((fetchData_send ''/analytics/day-of-week'' s2)\<lparr>insightsStage := 2\<rparr>, Pending))
           else (s, Pending))
      | WeeklyResponse r \<Rightarrow>
          (if insightsStage s = 2
           then (let (s1, weekData) = fetchData r s;
                     (s2, thrown) = whenSuccessful weekData insightWeekly_body s1
                 in (s2, outcome thrown))
           else (s, Pending)))"

subsection \<open>The loaders up to their first \<open>await\<close>, and \<open>initDashboard\<close>\<close>

definition start :: "loader \<Rightarrow> string \<Rightarrow> dashboard \<Rightarrow> dashboard" where
  "start l endpoint s = (fetchData_send endpoint s)\<lparr>status := (status s)(l := Pending)\<rparr>"

definition loadStats :: "dashboard \<Rightarrow> dashboard" where
  "loadStats s = start Stats ''/stats'' s"

definition loadHourlyChart :: "dashboard \<Rightarrow> dashboard" where
  "loadHourlyChart s = start HourlyChart ''/analytics/busiest-hours'' s"

definition loadDailyChart :: "dashboard \<Rightarrow> dashboard" where
  "loadDailyChart s = start DailyChart ''/analytics/day-of-week'' s"

definition loadSpeedChart_dash :: "dashboard \<Rightarrow> dashboard" where
  "loadSpeedChart_dash s = start SpeedChart ''/analytics/speed-by-hour'' s"

definition loadDurationChart :: "dashboard \<Rightarrow> dashboard" where
  "loadDurationChart s = start DurationChart ''/analytics/duration-distribution'' s"

text \<open>The filters of the trip table; an empty string is a filter that is not set.\<close>

record trip_filters =
  f_hour :: string
  f_day :: string
  f_category :: string

definition noFilters :: trip_filters where
  "noFilters = \<lparr>f_hour = [], f_day = [], f_category = []\<rparr>"

definition queryString :: "trip_filters \<Rightarrow> string" where
  "queryString filters =
     ''?limit=500'' @
     (if f_hour filters \<noteq> [] then ''&hour='' @ f_hour filters else []) @
     (if f_day filters \<noteq> [] then ''&day='' @ f_day filters else []) @
     (if f_category filters \<noteq> [] then ''&category='' @ f_category filters else [])"

definition loadTrips_dash :: "trip_filters \<Rightarrow> dashboard \<Rightarrow> dashboard" where
  "loadTrips_dash filters s = start Trips (''/trips'' @ queryString filters) s"

definition generateInsights :: "dashboard \<Rightarrow> dashboard" where
  "generateInsights s = (start Insights ''/analytics/busiest-hours'' s)\<lparr>insightsStage := 0\<rparr>"

definition loaders :: "loader list" where
  "loaders = [Stats, HourlyChart, DailyChart, SpeedChart, DurationChart, Trips, Insights]"

text \<open>
  \<open>initDashboard\<close> up to \<open>await Promise.all\<close>: the overlay is shown and the seven
  loaders are started, each running to its own first \<open>await\<close>.
\<close>

definition initDashboard :: "dashboard \<Rightarrow> dashboard" where
  "initDashboard s =
     (let s1 = showLoading s;
          s2 = loadStats s1;
          s3 = loadHourlyChart s2;
          s4 = loadDailyChart s3;
          s5 = loadSpeedChart_dash s4;
          s6 = loadDurationChart s5;
          s7 = loadTrips_dash noFilters s6;
          s8 = generateInsights s7
      in s8\<lparr>initDashboardWaiting := True\<rparr>)"

definition dashboardAlert :: string where
  "dashboardAlert = ''Error loading dashboard data. Please check the console for details.''"

text \<open>
  \<open>Promise.all\<close> is rejected as soon as one of the seven promises is, and fulfilled when
  all of them are. Then \<open>initDashboard\<close> goes on, once: with its \<open>catch\<close> block or with
  the success message, and with \<open>finally\<close>. The loaders that are still pending go on
  later, on their own.
\<close>

definition initDashboard_resume :: "dashboard \<Rightarrow> dashboard" where
  "initDashboard_resume s =
     (if initDashboardWaiting s
      then (if list_ex (\<lambda>l. status s l = Rejected) loaders
            then hideLoading
                   (s\<lparr>consoleErrors := consoleErrors s @ [''Error loading dashboard:''],
                      alerts := alerts s @ [dashboardAlert],
                      initDashboardWaiting := False\<rparr>)
            else if list_all (\<lambda>l. status s l = Fulfilled) loaders
            then hideLoading
                   (s\<lparr>consoleLogs := consoleLogs s @ [''Dashboard loaded successfully!''],
                      initDashboardWaiting := False\<rparr>)
            else s)
      else s)"

definition settle :: "loader \<Rightarrow> promise \<Rightarrow> dashboard \<Rightarrow> dashboard" where
  "settle l p s = initDashboard_resume (s\<lparr>status := (status s)(l := p)\<rparr>)"

text \<open>The script's top level on a document, and its \<open>DOMContentLoaded\<close> listener.\<close>

definition initialDashboard :: "dashboard \<Rightarrow> dashboard" where
  "initialDashboard doc =
     doc\<lparr>hourlyChart := None, dailyChart := None, speedChart_dash := None,
         durationChart := None, destroyedCharts := [], alerts := [], consoleErrors := [],
         consoleLogs := [], fetches := [], status := (\<lambda>l. NotStarted), insightsStage := 0,
         initDashboardWaiting := False\<rparr>"

definition domContentLoaded_dash :: "dashboard \<Rightarrow> dashboard" where
  "domContentLoaded_dash s =
     initDashboard (s\<lparr>consoleLogs := consoleLogs s @ [''Initializing NYC Taxi Trip Explorer...'']\<rparr>)"

subsection \<open>The event loop of the dashboard script at page load\<close>

text \<open>
  The events are the arrivals of the responses the loaders wait for, in any order. (The
  click handlers of the filter form start further calls of \<open>loadTrips\<close>; they are not part
  of the page load.)
\<close>

datatype arrival =
  StatsArrived "dash_stats envelope fetched"
  | HoursArrived "hour_row list envelope fetched"
  | DaysArrived "day_row list envelope fetched"
  | SpeedsArrived "speed_row list envelope fetched"
  | DistributionArrived "duration_row list envelope fetched"
  | TripsArrived "dash_trip list envelope fetched"
  | InsightsArrived insights_response

fun loaderOf :: "arrival \<Rightarrow> loader" where
  "loaderOf (StatsArrived r) = Stats"
| "loaderOf (HoursArrived r) = HourlyChart"
| "loaderOf (DaysArrived r) = DailyChart"
| "loaderOf (SpeedsArrived r) = SpeedChart"
| "loaderOf (DistributionArrived r) = DurationChart"
| "loaderOf (TripsArrived r) = Trips"
| "loaderOf (InsightsArrived r) = Insights"

text \<open>The loader an arrival belongs to goes on; the result is the new state of its promise.\<close>

fun resume :: "arrival \<Rightarrow> dashboard \<Rightarrow> dashboard \<times> promise" where
  "resume (StatsArrived r) s = (let (s1, thrown) = loadStats_resume r s in (s1, outcome thrown))"
| "resume (HoursArrived r) s = (let (s1, thrown) = loadHourlyChart_resume r s in (s1, outcome thrown))"
| "resume (DaysArrived r) s = (let (s1, thrown) = loadDailyChart_resume r s in (s1, outcome thrown))"
| "resume (SpeedsArrived r) s = (let (s1, thrown) = loadSpeedChart_dash_resume r s in (s1, outcome thrown))"
| "resume (DistributionArrived r) s = (let (s1, thrown) = loadDurationChart_resume r s in (s1, outcome thrown))"
| "resume (TripsArrived r) s = (let (s1, thrown) = loadTrips_dash_resume r s in (s1, outcome thrown))"
| "resume (InsightsArrived r) s = generateInsights_resume r s"

definition stepD :: "arrival \<Rightarrow> dashboard \<Rightarrow> dashboard" where
  "stepD e s =
     (if status s (loaderOf e) = Pending
      then (let (s1, p) = resume e s in settle (loaderOf e) p s1)
      else s)"


subsection \<open>Vocabulary of the statements\<close>

text \<open>
  What a loader of the dashboard script renders into: the elements and the chart variable
  it writes. The overlay, the alerts, the console and the list of requests are shared.
\<close>

datatype rendering =
  StatsRegion template template template template
  | ChartRegion "chart option"
  | TripsRegion "trips_row list" template
  | InsightsRegion template template template

fun region :: "loader \<Rightarrow> dashboard \<Rightarrow> rendering" where
  "region Stats s =
     StatsRegion (el_total_trips s) (el_avg_duration s) (el_avg_speed s) (el_common_passengers s)"
| "region HourlyChart s = ChartRegion (hourlyChart s)"
| "region DailyChart s = ChartRegion (dailyChart s)"
| "region SpeedChart s = ChartRegion (speedChart_dash s)"
| "region DurationChart s = ChartRegion (durationChart s)"
| "region Trips s = TripsRegion (el_trips_tbody s) (el_trips_count s)"
| "region Insights s =
     InsightsRegion (el_insight_peak_hours s) (el_insight_speed s) (el_insight_weekly s)"

text \<open>What a loader's next step depends on: its region, its promise, and its stage.\<close>

definition own :: "loader \<Rightarrow> dashboard \<Rightarrow> rendering \<times> promise \<times> nat" where
  "own l s = (region l s, status s l, if l = Insights then insightsStage s else 0)"

text \<open>
  The same for the page-load loads of the paginated script: the statistics tiles and the
  two chart containers, and the arrival that belongs to each.
\<close>

datatype widget = StatisticsTiles | TimeChartBox | SpeedChartBox

datatype widget_html =
  Tiles stat_html stat_html stat_html stat_html
  | Box container_html


fun shown :: "widget \<Rightarrow> page \<Rightarrow> widget_html" where
  "shown StatisticsTiles s = Tiles (totalTrips s) (avgDuration s) (avgDistance s) (avgSpeed s)"
| "shown TimeChartBox s = Box (timeChart s)"
| "shown SpeedChartBox s = Box (speedChart s)"

fun suspended :: "widget \<Rightarrow> page \<Rightarrow> bool" where
  "suspended StatisticsTiles s = pendingStatistics s"
| "suspended TimeChartBox s = pendingTimeChart s"
| "suspended SpeedChartBox s = pendingSpeedChart s"

definition ownP :: "widget \<Rightarrow> page \<Rightarrow> widget_html \<times> bool" where
  "ownP w s = (shown w s, suspended w s)"




text \<open>
  The two kinds of response the envelope convention speaks of: a body whose \<open>success\<close>
  is false, and a fetch that failed (no connection, or a body that is not JSON).
\<close>

definition isUnsuccessful :: "'p envelope fetched \<Rightarrow> bool" where
  "isUnsuccessful r = (case r of FetchFailed \<Rightarrow> False | Parsed d \<Rightarrow> \<not> success d)"

definition isFetchFailed :: "'a fetched \<Rightarrow> bool" where
  "isFetchFailed r = (case r of FetchFailed \<Rightarrow> True | Parsed d \<Rightarrow> False)"

fun unsuccessful :: "arrival \<Rightarrow> bool" where
  "unsuccessful (StatsArrived r) = isUnsuccessful r"
| "unsuccessful (HoursArrived r) = isUnsuccessful r"
| "unsuccessful (DaysArrived r) = isUnsuccessful r"
| "unsuccessful (SpeedsArrived r) = isUnsuccessful r"
| "unsuccessful (DistributionArrived r) = isUnsuccessful r"
| "unsuccessful (TripsArrived r) = isUnsuccessful r"
| "unsuccessful (InsightsArrived (PeakHoursResponse r)) = isUnsuccessful r"
| "unsuccessful (InsightsArrived (SpeedResponse r)) = isUnsuccessful r"
| "unsuccessful (InsightsArrived (WeeklyResponse r)) = isUnsuccessful r"

fun fetchFailed :: "arrival \<Rightarrow> bool" where
  "fetchFailed (StatsArrived r) = isFetchFailed r"
| "fetchFailed (HoursArrived r) = isFetchFailed r"
| "fetchFailed (DaysArrived r) = isFetchFailed r"
| "fetchFailed (SpeedsArrived r) = isFetchFailed r"
| "fetchFailed (DistributionArrived r) = isFetchFailed r"
| "fetchFailed (TripsArrived r) = isFetchFailed r"
| "fetchFailed (InsightsArrived (PeakHoursResponse r)) = isFetchFailed r"
| "fetchFailed (InsightsArrived (SpeedResponse r)) = isFetchFailed r"
| "fetchFailed (InsightsArrived (WeeklyResponse r)) = isFetchFailed r"

text \<open>The response is the one the loader's current \<open>await\<close> waits for.\<close>

fun awaited :: "arrival \<Rightarrow> dashboard \<Rightarrow> bool" where
  "awaited (InsightsArrived (PeakHoursResponse r)) s = (insightsStage s = 0)"
| "awaited (InsightsArrived (SpeedResponse r)) s = (insightsStage s = 1)"
| "awaited (InsightsArrived (WeeklyResponse r)) s = (insightsStage s = 2)"
| "awaited e s = True"

text \<open>
  The keys \<open>applyFilters\<close> can write into \<open>currentFilters\<close>: each at most once, and
  none of them is \<open>limit\<close> or \<open>offset\<close>.
\<close>

definition filterKeysOk :: "(string \<times> string) list \<Rightarrow> bool" where
  "filterKeysOk fs =
     (distinct (map fst fs) \<and>
      set (map fst fs) \<subseteq> {''time_of_day'', ''speed_category'', ''min_distance'', ''max_distance''})"

text \<open>
  At most one call of \<open>loadTrips\<close> is suspended, and only while \<open>isLoading\<close> is set
  and \<open>loadCharts\<close> is not waiting; \<open>loadCharts\<close> waits only while \<open>isLoading\<close> is set.
\<close>

definition oneLoad :: "page \<Rightarrow> bool" where
  "oneLoad s =
     (length (pendingTrips s) \<le> 1 \<and>
      (pendingTrips s \<noteq> [] \<longrightarrow> isLoading s \<and> \<not> pendingCharts s) \<and>
      (pendingCharts s \<longrightarrow> isLoading s))"

text \<open>The filter controls that hold a non-empty value, in the order \<open>applyFilters\<close> reads them.\<close>

definition activeFilters :: "page \<Rightarrow> (string \<times> string) list" where
  "activeFilters s =
     filter (\<lambda>(k, v). v \<noteq> [])
       [(''time_of_day'', timeOfDay s), (''speed_category'', speedCategory s),
        (''min_distance'', minDistance s), (''max_distance'', maxDistance s)]"



subsection \<open>Example inputs\<close>

text \<open>
  A document with empty filter controls and enabled buttons, and some runs on it. On
  \<open>chartsDone\<close> the page has loaded and both chart requests have failed; on
  \<open>pageTwoLoading\<close> the user has applied the filter \<open>morning\<close>, seen that load fail,
  and clicked "next", whose load is in flight.
\<close>

definition blankDocument :: page where
  "blankDocument =
     \<lparr>currentPage = 0, currentFilters = [], isLoading = False,
      timeOfDay = [], speedCategory = [], minDistance = [], maxDistance = [],
      applyBtn_disabled = False, applyBtn_text = ''Apply Filters'',
      prevBtn_disabled = False, nextBtn_disabled = False,
      tableContainer = TableMarkup [], currentPage_text = None,
      totalTrips = StatMarkup [], avgDuration = StatMarkup [],
      avgDistance = StatMarkup [], avgSpeed = StatMarkup [],
      timeChart = Markup [], speedChart = Markup [],
      errorBanners = [], console = [], requests = [], pendingTrips = [],
      pendingStatistics = False, pendingTimeChart = False,
      pendingSpeedChart = False, pendingCharts = False\<rparr>"

definition chartsDone :: page where
  "chartsDone =
     run [TimeChartArrive FetchFailed, SpeedChartArrive FetchFailed]
       (domContentLoaded (initialPage blankDocument))"

definition pageTwoLoading :: page where
  "pageTwoLoading =
     run [Edit TimeOfDay ''morning'', ClickApply, TripsArrive 0 FetchFailed, ClickNext] chartsDone"

definition pageTwoIdle :: page where
  "pageTwoIdle = step (TripsArrive 0 FetchFailed) pageTwoLoading"

definition filtersTyped :: page where
  "filtersTyped = run [Edit TimeOfDay ''morning'', Edit MaxDistance ''5''] pageTwoIdle"

definition applyWhileLoading :: page where
  "applyWhileLoading = run [Edit MaxDistance ''5'', ClickApply] pageTwoLoading"




definition exampleTrip :: trip where
  "exampleTrip =
     \<lparr>trip_id = 7, pickup_datetime = ''2016-03-14 17:24:55'',
      trip_duration_minutes = Some 12, trip_distance_miles = Some 3,
      trip_avg_speed_mph = Some 15, passenger_count = 1,
      time_of_day = Some ''evening'', speed_category = None\<rparr>"

text \<open>
  An empty dashboard document, the dashboard right after its \<open>DOMContentLoaded\<close>
  listener has run, a payload of the busiest-hours endpoint and the chart drawn from it.
\<close>

definition blankDashboard :: dashboard where
  "blankDashboard =
     \<lparr>overlayHidden = True,
      el_total_trips = [], el_avg_duration = [], el_avg_speed = [], el_common_passengers = [],
      el_trips_tbody = [], el_trips_count = [],
      el_insight_peak_hours = [], el_insight_speed = [], el_insight_weekly = [],
      hourlyChart = None, dailyChart = None, speedChart_dash = None, durationChart = None,
      destroyedCharts = [], alerts = [], consoleErrors = [], consoleLogs = [], fetches = [],
      status = (\<lambda>l. NotStarted), insightsStage = 0, initDashboardWaiting = False\<rparr>"

definition dashboardLoading :: dashboard where
  "dashboardLoading = domContentLoaded_dash (initialDashboard blankDashboard)"




section \<open>Properties of the label humanization\<close>

lemma of_char_toUpperCase:
  "(of_char (toUpperCase c) :: nat) =
     (if 97 \<le> (of_char c :: nat) \<and> (of_char c :: nat) \<le> 122 then of_char c - 32 else of_char c)"
  by (auto simp add: toUpperCase_def Let_def)

lemma toUpperCase_idem: "toUpperCase (toUpperCase c) = toUpperCase c"
proof -
  have "(of_char (toUpperCase (toUpperCase c)) :: nat) = of_char (toUpperCase c)"
    unfolding of_char_toUpperCase by auto
  then show ?thesis by (simp only: of_char_eq_iff)
qed

lemma isWordChar_toUpperCase: "isWordChar (toUpperCase c) = isWordChar c"
  unfolding isWordChar_def Let_def of_char_toUpperCase by auto

lemma underscore_code: "(c = CHR ''_'') = ((of_char c :: nat) = 95)"
proof -
  have "(of_char (CHR ''_'') :: nat) = 95" by simp
  then show ?thesis by (metis of_char_eq_iff)
qed

lemma toUpperCase_underscore_iff: "(toUpperCase c = CHR ''_'') = (c = CHR ''_'')"
  unfolding underscore_code of_char_toUpperCase by auto

text \<open>A second capitalizing pass finds every word start already in upper case.\<close>

lemma capitalizeWords_idem: "capitalizeWords prev (capitalizeWords prev s) = capitalizeWords prev s"
  by (induction s arbitrary: prev) (simp_all add: isWordChar_toUpperCase toUpperCase_idem)

lemma capitalizeWords_no_underscore:
  "CHR ''_'' \<notin> set s \<Longrightarrow> CHR ''_'' \<notin> set (capitalizeWords prev s)"
  by (induction s arbitrary: prev) (auto simp add: toUpperCase_underscore_iff dest: sym)

lemma replaceUnderscores_no_underscore: "CHR ''_'' \<notin> set (replaceUnderscores s)"
  by (auto simp add: replaceUnderscores_def)

lemma replaceUnderscores_id: "CHR ''_'' \<notin> set s \<Longrightarrow> replaceUnderscores s = s"
  by (induction s) (auto simp add: replaceUnderscores_def)

text \<open>
  Claim C9. Label humanization is idempotent: for every string \<open>s\<close>,
  \<open>formatLabel (formatLabel s) = formatLabel s\<close>. After the first application no underscore
  is left, the word starts are where they were, and each of them is already in upper case.
\<close>

theorem formatLabel_idempotent: "formatLabel (formatLabel s) = formatLabel s"
proof -
  let ?t = "replaceUnderscores s"
  have "CHR ''_'' \<notin> set (capitalizeWords False ?t)"
    by (rule capitalizeWords_no_underscore) (rule replaceUnderscores_no_underscore)
  then have "replaceUnderscores (capitalizeWords False ?t) = capitalizeWords False ?t"
    by (rule replaceUnderscores_id)
  then show ?thesis
    by (simp add: formatLabel_def capitalizeWords_idem)
qed

section \<open>Properties of the bar chart renderer\<close>


text \<open>The guard \<open>maxValue > 0\<close> keeps the divisor away from zero, so no bar faults.\<close>

lemma heightPercent_total: "heightPercent m v = Inr (if m > 0 then v / m * 100 else 0)"
  by (simp add: heightPercent_def checkedDivide_def)

lemma createBar_total:
  "createBar m item =
     Inr \<lparr>bar_height = max (if m > 0 then item_value item / m * 100 else 0) 1,
          bar_label = formatLabel (item_label item), bar_value = item_value item\<rparr>"
  by (simp add: createBar_def heightPercent_total)

lemma createBars_total:
  "createBars m items =
     Inr (map (\<lambda>item. \<lparr>bar_height = max (if m > 0 then item_value item / m * 100 else 0) 1,
                        bar_label = formatLabel (item_label item),
                        bar_value = item_value item\<rparr>) items)"
  by (induction items) (simp_all add: createBar_total)





text \<open>
  Claim C8. For an absent and for an empty series the renderer writes the "No data
  available" placeholder, and for no series at all does the normalization divide by zero.
\<close>

theorem createBarChart_placeholder_no_division_by_zero:
  "createBarChart None = Inr (Markup noDataMarkup) \<and>
   createBarChart (Some []) = Inr (Markup noDataMarkup) \<and>
   heightPercent maxValue v \<noteq> Inl DivisionByZero \<and>
   createBarChart data \<noteq> Inl DivisionByZero"
proof -
  have "createBarChart data \<noteq> Inl DivisionByZero"
  proof (cases data)
    case None
    then show ?thesis by (simp add: createBarChart_def)
  next
    case (Some xs)
    then show ?thesis
      by (cases xs) (simp_all add: createBarChart_def Let_def createBars_total del: createBars.simps)
  qed
  then show ?thesis
    by (simp add: createBarChart_def heightPercent_total)
qed

section \<open>Properties of the paginated trip list\<close>

subsection \<open>The page number\<close>

lemma currentPage_applyFilters_finally [simp]: "currentPage (applyFilters_finally s) = currentPage s"
  by (simp add: applyFilters_finally_def)

lemma currentPage_fetch [simp]: "currentPage (fetch p ps s) = currentPage s"
  by (simp add: fetch_def)

lemma currentPage_loadTrips [simp]: "currentPage (loadTrips c s) = currentPage s"
  by (simp add: loadTrips_def Let_def split: caller.split)

lemma currentPage_setFilter [simp]: "currentPage (setFilter k v s) = currentPage s"
  by (simp add: setFilter_def)

lemma currentPage_loadTrips_try [simp]: "currentPage (loadTrips_try r s) = currentPage s"
  by (simp add: loadTrips_try_def loadTrips_catch_def split: fetched.split trips_json.split sum.split)

lemma currentPage_loadTrips_resume [simp]: "currentPage (loadTrips_resume i r s) = currentPage s"
  by (simp add: loadTrips_resume_def loadTrips_complete_def Let_def split: caller.split)

lemma currentPage_loadStatistics_resume [simp]: "currentPage (loadStatistics_resume r s) = currentPage s"
  by (simp add: loadStatistics_resume_def loadStatistics_catch_def showError_def Let_def
      split: fetched.split option.split)

lemma currentPage_loadCharts_resume [simp]: "currentPage (loadCharts_resume s) = currentPage s"
  by (simp add: loadCharts_resume_def)

lemma currentPage_chart_resume [simp]:
  "currentPage (loadTimeChart_resume r s) = currentPage s"
  "currentPage (loadSpeedChart_resume r s) = currentPage s"
  by (simp_all add: loadTimeChart_resume_def loadSpeedChart_resume_def)

lemma currentPage_edit [simp]: "currentPage (edit c v s) = currentPage s"
  by (cases c) simp_all

lemma currentPage_domContentLoaded [simp]: "currentPage (domContentLoaded s) = currentPage s"
  by (simp add: domContentLoaded_def loadCharts_def loadStatistics_def loadTimeChart_def loadSpeedChart_def)

lemma currentPage_nextPage: "currentPage (nextPage s) = (if isLoading s then currentPage s else currentPage s + 1)"
  by (simp add: nextPage_def)

lemma currentPage_previousPage:
  "currentPage (previousPage s) = (if 1 < currentPage s \<and> \<not> isLoading s then currentPage s - 1 else currentPage s)"
  by (simp add: previousPage_def)

lemma currentPage_applyFilters: "currentPage (applyFilters s) = (if isLoading s then currentPage s else 1)"
  by (simp add: applyFilters_def Let_def)

lemma currentPage_resetFilters: "currentPage (resetFilters s) = 1"
  by (simp add: resetFilters_def)

lemma step_currentPage: "1 \<le> currentPage s \<Longrightarrow> 1 \<le> currentPage (step e s)"
  by (cases e)
     (simp_all add: currentPage_nextPage currentPage_previousPage currentPage_applyFilters
        currentPage_resetFilters)

lemma run_currentPage: "1 \<le> currentPage s \<Longrightarrow> 1 \<le> currentPage (run evs s)"
  by (induction evs arbitrary: s) (simp_all add: step_currentPage)

text \<open>
  Claim C10. \<open>currentPage\<close> is 1 initially; each of \<open>nextPage\<close>, \<open>previousPage\<close>,
  \<open>applyFilters\<close>, \<open>resetFilters\<close> and every other event keeps it at least 1; so in
  every state the page reaches, whatever the user does and whatever arrives,
  \<open>currentPage\<close> is at least 1 and the offset \<open>(currentPage - 1) * itemsPerPage\<close> is
  not negative.
\<close>

theorem currentPage_invariant:
  "currentPage (initialPage doc) = 1 \<and>
   (1 \<le> currentPage s \<longrightarrow>
      1 \<le> currentPage (nextPage s) \<and> 1 \<le> currentPage (previousPage s) \<and>
      1 \<le> currentPage (applyFilters s) \<and> 1 \<le> currentPage (resetFilters s) \<and>
      1 \<le> currentPage (step e s)) \<and>
   1 \<le> currentPage (run evs (domContentLoaded (initialPage doc))) \<and>
   0 \<le> (currentPage (run evs (domContentLoaded (initialPage doc))) - 1) * itemsPerPage"
proof -
  have init: "currentPage (initialPage doc) = 1" by (simp add: initialPage_def)
  then have "1 \<le> currentPage (domContentLoaded (initialPage doc))" by simp
  then have reach: "1 \<le> currentPage (run evs (domContentLoaded (initialPage doc)))"
    by (rule run_currentPage)
  then have "0 \<le> (currentPage (run evs (domContentLoaded (initialPage doc))) - 1) * itemsPerPage"
    by (simp add: itemsPerPage_def)
  moreover have "1 \<le> currentPage s \<longrightarrow>
      1 \<le> currentPage (nextPage s) \<and> 1 \<le> currentPage (previousPage s) \<and>
      1 \<le> currentPage (applyFilters s) \<and> 1 \<le> currentPage (resetFilters s) \<and>
      1 \<le> currentPage (step e s)"
    using step_currentPage [of s e]
    by (simp add: currentPage_nextPage currentPage_previousPage currentPage_applyFilters
        currentPage_resetFilters)
  ultimately show ?thesis using init reach by blast
qed

theorem currentPage_invariant_witness:
  "1 \<le> currentPage (initialPage blankDocument) \<and>
   currentPage (previousPage (initialPage blankDocument)) = 1 \<and>
   currentPage (nextPage (initialPage blankDocument)) = 2 \<and>
   1 \<le> currentPage (run [ClickPrevious, ClickNext, ClickPrevious, ClickPrevious]
                        (domContentLoaded (initialPage blankDocument)))"
proof -
  have a: "1 \<le> currentPage (initialPage blankDocument)"
    by (simp add: initialPage_def)
  have "currentPage (previousPage (initialPage blankDocument)) = 1"
    and "currentPage (nextPage (initialPage blankDocument)) = 2"
    by (simp_all add: currentPage_previousPage currentPage_nextPage initialPage_def)
  then show ?thesis
    using a currentPage_invariant [of blankDocument "initialPage blankDocument" ClickPrevious
        "[ClickPrevious, ClickNext, ClickPrevious, ClickPrevious]"]
    by blast
qed

subsection \<open>The example runs, evaluated\<close>

lemmas model_defs =
  domContentLoaded_def initialPage_def blankDocument_def loadStatistics_def loadCharts_def
  loadTimeChart_def loadSpeedChart_def fetch_def loadTrips_def loadTimeChart_resume_def
  loadSpeedChart_resume_def loadCharts_resume_def chartContent_def applyFilters_def
  setFilter_def resetFilters_def nextPage_def previousPage_def loadTrips_resume_def
  loadTrips_complete_def loadTrips_try_def loadTrips_catch_def applyFilters_finally_def
  removeAt_def tripsParams_def spread_def itemsPerPage_def Let_def

lemma chartsDone_eval:
  "chartsDone = blankDocument\<lparr>currentPage := 1,
      timeChart := Markup failedToLoadMarkup, speedChart := Markup failedToLoadMarkup,
      requests := [\<lparr>req_path = ''/api/stats'', req_params = []\<rparr>,
                   \<lparr>req_path = ''/api/patterns/time'', req_params = []\<rparr>,
                   \<lparr>req_path = ''/api/patterns/speed'', req_params = []\<rparr>],
      pendingStatistics := True\<rparr>"
  by (simp add: chartsDone_def model_defs)

lemma pageTwoLoading_eval:
  "pageTwoLoading = chartsDone\<lparr>currentPage := 2,
      currentFilters := [(''time_of_day'', ''morning'')],
      isLoading := True,
      timeOfDay := ''morning'',
      prevBtn_disabled := True, nextBtn_disabled := True,
      tableContainer := TableMarkup loadingTripsMarkup,
      console := [''Error loading trips:''],
      requests := requests chartsDone @
         [\<lparr>req_path = ''/api/trips'', req_params = [(''limit'', PNum 50), (''offset'', PNum 0), (''time_of_day'', PStr ''morning'')]\<rparr>,
          \<lparr>req_path = ''/api/trips'', req_params = [(''limit'', PNum 50), (''offset'', PNum 50), (''time_of_day'', PStr ''morning'')]\<rparr>],
      pendingTrips := [NotAwaited]\<rparr>"
  unfolding pageTwoLoading_def chartsDone_eval
  by (simp add: model_defs)

lemma pageTwoIdle_eval:
  "pageTwoIdle = pageTwoLoading\<lparr>isLoading := False,
      prevBtn_disabled := False, nextBtn_disabled := False,
      tableContainer := TableMarkup tripsErrorMarkup,
      console := [''Error loading trips:'', ''Error loading trips:''],
      pendingTrips := []\<rparr>"
  unfolding pageTwoIdle_def pageTwoLoading_eval chartsDone_eval
  by (simp add: model_defs)


subsection \<open>Actions while a load is in flight\<close>

text \<open>
  \<open>nextPage\<close>, \<open>previousPage\<close> and \<open>applyFilters\<close> test \<open>isLoading\<close> first and change
  nothing at all while it is set; \<open>loadTrips\<close> sends nothing then.
\<close>

lemma nextPage_while_loading: "isLoading s \<Longrightarrow> nextPage s = s"
  by (simp add: nextPage_def)

lemma previousPage_while_loading: "isLoading s \<Longrightarrow> previousPage s = s"
  by (simp add: previousPage_def)

lemma applyFilters_while_loading: "isLoading s \<Longrightarrow> applyFilters s = s"
  by (simp add: applyFilters_def)

lemma loadTrips_while_loading: "isLoading s \<Longrightarrow> loadTrips NotAwaited s = s"
  by (simp add: loadTrips_def)

lemma resetFilters_while_loading_requests: "isLoading s \<Longrightarrow> requests (resetFilters s) = requests s"
  by (simp add: resetFilters_def loadTrips_def)

text \<open>
  The flag does its work: in every state the page reaches, at most one trip-list fetch is
  in flight.
\<close>

lemma oneLoad_loadTrips: "oneLoad s \<Longrightarrow> oneLoad (loadTrips c s)"
  by (cases "pendingTrips s")
     (auto simp add: oneLoad_def loadTrips_def fetch_def applyFilters_finally_def Let_def
        split: caller.split)

lemma oneLoad_shared [simp]:
  "oneLoad (s\<lparr>currentPage := a\<rparr>) = oneLoad s"
  "oneLoad (s\<lparr>currentFilters := b\<rparr>) = oneLoad s"
  "oneLoad (s\<lparr>timeOfDay := d\<rparr>) = oneLoad s"
  "oneLoad (s\<lparr>speedCategory := d\<rparr>) = oneLoad s"
  "oneLoad (s\<lparr>minDistance := d\<rparr>) = oneLoad s"
  "oneLoad (s\<lparr>maxDistance := d\<rparr>) = oneLoad s"
  "oneLoad (s\<lparr>applyBtn_disabled := c\<rparr>) = oneLoad s"
  "oneLoad (s\<lparr>applyBtn_text := d\<rparr>) = oneLoad s"
  "oneLoad (s\<lparr>errorBanners := g\<rparr>) = oneLoad s"
  "oneLoad (s\<lparr>timeChart := h\<rparr>) = oneLoad s"
  "oneLoad (s\<lparr>speedChart := h\<rparr>) = oneLoad s"
  "oneLoad (s\<lparr>pendingTimeChart := c\<rparr>) = oneLoad s"
  "oneLoad (s\<lparr>pendingSpeedChart := c\<rparr>) = oneLoad s"
  by (simp_all add: oneLoad_def)

lemma oneLoad_setFilter [simp]: "oneLoad (setFilter k v s) = oneLoad s"
  by (simp add: setFilter_def)

lemma oneLoad_applyFilters: "oneLoad s \<Longrightarrow> oneLoad (applyFilters s)"
  by (simp add: applyFilters_def Let_def oneLoad_loadTrips)

lemma oneLoad_loadTrips_resume: "oneLoad s \<Longrightarrow> oneLoad (loadTrips_resume i r s)"
proof (cases "i < length (pendingTrips s)")
  case True
  assume inv: "oneLoad s"
  then have i: "i = 0" and one: "length (pendingTrips s) = 1"
    using True by (simp_all add: oneLoad_def)
  then obtain c where p: "pendingTrips s = [c]" by (cases "pendingTrips s") auto
  show ?thesis
    using inv
    by (simp add: loadTrips_resume_def i p removeAt_def loadTrips_complete_def loadTrips_try_def
        loadTrips_catch_def applyFilters_finally_def oneLoad_def Let_def
        split: caller.split fetched.split trips_json.split sum.split)
next
  case False
  assume "oneLoad s"
  then show ?thesis using False by (simp add: loadTrips_resume_def)
qed

lemma oneLoad_loadCharts_resume: "oneLoad s \<Longrightarrow> oneLoad (loadCharts_resume s)"
  by (auto simp add: loadCharts_resume_def oneLoad_def)

lemma oneLoad_loadStatistics_resume: "oneLoad s \<Longrightarrow> oneLoad (loadStatistics_resume r s)"
  by (simp add: loadStatistics_resume_def loadStatistics_catch_def showError_def Let_def oneLoad_def
      split: fetched.split option.split)

lemma oneLoad_step: "oneLoad s \<Longrightarrow> oneLoad (step e s)"
proof (cases e)
  case (Edit c v)
  assume "oneLoad s"
  then show ?thesis using Edit by (cases c) simp_all
next
  case BannerExpires
  assume "oneLoad s"
  then show ?thesis using BannerExpires by simp
qed (simp_all add: nextPage_def previousPage_def resetFilters_def oneLoad_loadTrips
      oneLoad_applyFilters oneLoad_loadTrips_resume oneLoad_loadStatistics_resume
      oneLoad_loadCharts_resume loadTimeChart_resume_def loadSpeedChart_resume_def)

lemma oneLoad_run: "oneLoad s \<Longrightarrow> oneLoad (run evs s)"
  by (induction evs arbitrary: s) (simp_all add: oneLoad_step)

lemma oneLoad_pageLoad: "oneLoad (domContentLoaded (initialPage doc))"
  by (simp add: oneLoad_def domContentLoaded_def initialPage_def loadStatistics_def loadCharts_def
      loadTimeChart_def loadSpeedChart_def loadTrips_def fetch_def)

lemma at_most_one_trips_fetch_in_flight:
  "length (pendingTrips (run evs (domContentLoaded (initialPage doc)))) \<le> 1"
  using oneLoad_run [OF oneLoad_pageLoad, of evs doc] by (simp add: oneLoad_def)

text \<open>
  Claim C1. An action invoked while a trip-list load is in flight is meant to be a no-op:
  no request, \<open>currentPage\<close> and \<open>currentFilters\<close> unchanged. \<open>resetFilters\<close> has no
  such test. On \<open>pageTwoLoading\<close> (page 2, filter \<open>morning\<close>, the load of page 2 in
  flight) it sends no request, as the guard of \<open>loadTrips\<close> holds, yet it sets the page
  back to 1 and empties the filters; the rows of page 2 that arrive afterwards are shown
  under the page number 1.
\<close>

theorem resetFilters_while_loading:
  "isLoading pageTwoLoading \<and>
   currentPage pageTwoLoading = 2 \<and>
   currentFilters pageTwoLoading = [(''time_of_day'', ''morning'')] \<and>
   currentPage (resetFilters pageTwoLoading) = 1 \<and>
   currentFilters (resetFilters pageTwoLoading) = [] \<and>
   requests (resetFilters pageTwoLoading) = requests pageTwoLoading \<and>
   currentPage_text
     (run [ClickReset, TripsArrive 0 (Parsed (TripArray [exampleTrip]))] pageTwoLoading) = Some 1"
proof -
  have "currentPage_text
     (run [ClickReset, TripsArrive 0 (Parsed (TripArray [exampleTrip]))] pageTwoLoading) = Some 1"
    unfolding pageTwoLoading_eval chartsDone_eval
    by (simp add: model_defs renderRow_def exampleTrip_def)
  then show ?thesis
    unfolding pageTwoLoading_eval chartsDone_eval
    by (simp add: resetFilters_def loadTrips_def blankDocument_def)
qed

subsection \<open>The buttons after a load\<close>





subsection \<open>The query of the trip fetch\<close>

lemma update_new_key: "k \<notin> fst ` set al \<Longrightarrow> AList.update k v al = al @ [(k, v)]"
  by (induction al) auto

lemma spread_append:
  "distinct (map fst src) \<Longrightarrow> fst ` set src \<inter> fst ` set obj = {} \<Longrightarrow> spread obj src = obj @ src"
proof (induction src arbitrary: obj)
  case Nil
  then show ?case by (simp add: spread_def)
next
  case (Cons p src)
  obtain k v where p: "p = (k, v)" by (cases p)
  have new: "k \<notin> fst ` set obj" using Cons.prems(2) p by auto
  have "spread obj (p # src) = spread (obj @ [(k, v)]) src"
    by (simp add: spread_def p update_new_key [OF new])
  also have "\<dots> = (obj @ [(k, v)]) @ src"
  proof (rule Cons.IH)
    show "distinct (map fst src)" using Cons.prems(1) by simp
    show "fst ` set src \<inter> fst ` set (obj @ [(k, v)]) = {}"
      using Cons.prems p by (auto simp add: image_iff)
  qed
  finally show ?case by (simp add: p)
qed

lemma tripsParams_eq:
  assumes "filterKeysOk fs"
  shows "tripsParams n fs =
     [(''limit'', PNum 50), (''offset'', PNum ((n - 1) * 50))] @ map (\<lambda>(k, v). (k, PStr v)) fs"
proof -
  define src where "src = map (\<lambda>(k, v). (k, PStr v)) fs"
  have keys: "map fst src = map fst fs" unfolding src_def by (induction fs) auto
  have d: "distinct (map fst src)" using assms unfolding keys by (simp add: filterKeysOk_def)
  have sub: "set (map fst src) \<subseteq> {''time_of_day'', ''speed_category'', ''min_distance'', ''max_distance''}"
    using assms unfolding keys by (simp add: filterKeysOk_def)
  have "''limit'' \<notin> set (map fst src)" and "''offset'' \<notin> set (map fst src)"
    using sub by auto
  then have "fst ` set src \<inter> fst ` set [(''limit'', PNum 50), (''offset'', PNum ((n - 1) * 50))] = {}"
    by simp
  from spread_append [OF d this] show ?thesis
    by (simp add: tripsParams_def itemsPerPage_def Let_def src_def)
qed

lemma loadTrips_requests_eq:
  assumes "\<not> isLoading s" and "filterKeysOk (currentFilters s)"
  shows "requests (loadTrips c s) =
     requests s @
       [\<lparr>req_path = ''/api/trips'',
         req_params = [(''limit'', PNum 50), (''offset'', PNum ((currentPage s - 1) * 50))] @
                      map (\<lambda>(k, v). (k, PStr v)) (currentFilters s)\<rparr>]"
  using assms by (simp add: loadTrips_def Let_def fetch_def tripsParams_eq)

text \<open>The filters of every reachable state have such keys.\<close>

lemma keep_nonempty:
  "filter (\<lambda>(k, v). v \<noteq> []) ((k, a) # rest) =
     (if a = [] then filter (\<lambda>(k, v). v \<noteq> []) rest else (k, a) # filter (\<lambda>(k, v). v \<noteq> []) rest)"
  by simp

lemma filters_chain:
  fixes a b c d :: string
  defines "f1 \<equiv> (if a = [] then [] else AList.update ''time_of_day'' a [])"
  defines "f2 \<equiv> (if b = [] then f1 else AList.update ''speed_category'' b f1)"
  defines "f3 \<equiv> (if c = [] then f2 else AList.update ''min_distance'' c f2)"
  defines "f4 \<equiv> (if d = [] then f3 else AList.update ''max_distance'' d f3)"
  shows "f4 = filter (\<lambda>(k, v). v \<noteq> [])
       [(''time_of_day'', a), (''speed_category'', b), (''min_distance'', c), (''max_distance'', d)]"
proof -
  have 1: "f1 = filter (\<lambda>(k, v). v \<noteq> []) [(''time_of_day'', a)]"
    by (simp add: f1_def)
  have 2: "f2 = filter (\<lambda>(k, v). v \<noteq> []) [(''time_of_day'', a), (''speed_category'', b)]"
    unfolding f2_def 1 by simp
  have 3: "f3 = filter (\<lambda>(k, v). v \<noteq> []) [(''time_of_day'', a), (''speed_category'', b), (''min_distance'', c)]"
    unfolding f3_def 2 by simp
  show ?thesis
    unfolding f4_def 3 by simp
qed

lemma setFilter_alt:
  "setFilter k v s =
     s\<lparr>currentFilters := (if v = [] then currentFilters s else AList.update k v (currentFilters s))\<rparr>"
  by (simp add: setFilter_def)

lemma applyFilters_idle:
  "\<not> isLoading s \<Longrightarrow>
     applyFilters s =
       loadTrips AwaitedByApplyFilters
         (s\<lparr>applyBtn_disabled := True, applyBtn_text := ''Applying...'',
            currentFilters := activeFilters s, currentPage := 1\<rparr>)"
  unfolding activeFilters_def filters_chain [symmetric]
  by (simp add: applyFilters_def setFilter_alt Let_def split del: if_split cong: if_cong)

lemma filterKeysOk_activeFilters: "filterKeysOk (activeFilters s)"
proof -
  let ?all = "[(''time_of_day'', timeOfDay s), (''speed_category'', speedCategory s),
        (''min_distance'', minDistance s), (''max_distance'', maxDistance s)]"
  have "distinct (map fst ?all)" by simp
  then have "distinct (map fst (filter (\<lambda>(k, v). v \<noteq> []) ?all))"
    by (rule distinct_map_filter)
  moreover have "set (map fst (filter (\<lambda>(k, v). v \<noteq> []) ?all)) \<subseteq> set (map fst ?all)"
    by (simp only: set_map set_filter) blast
  moreover have "set (map fst ?all) = {''time_of_day'', ''speed_category'', ''min_distance'', ''max_distance''}"
    by simp
  ultimately show ?thesis
    unfolding filterKeysOk_def activeFilters_def by (simp only:) 
qed

lemma currentFilters_loadTrips [simp]: "currentFilters (loadTrips c s) = currentFilters s"
  by (simp add: loadTrips_def Let_def fetch_def applyFilters_finally_def split: caller.split)

lemma filterKeysOk_Nil [simp]: "filterKeysOk []"
  by (simp add: filterKeysOk_def)

lemma currentFilters_applyFilters:
  "\<not> isLoading s \<Longrightarrow> currentFilters (applyFilters s) = activeFilters s"
  by (simp add: applyFilters_idle)

lemma currentFilters_loadTrips_resume [simp]: "currentFilters (loadTrips_resume i r s) = currentFilters s"
  by (simp add: loadTrips_resume_def loadTrips_complete_def loadTrips_try_def loadTrips_catch_def
      applyFilters_finally_def Let_def
      split: caller.split fetched.split trips_json.split sum.split)

lemma currentFilters_loadStatistics_resume [simp]:
  "currentFilters (loadStatistics_resume r s) = currentFilters s"
  by (simp add: loadStatistics_resume_def loadStatistics_catch_def showError_def Let_def
      split: fetched.split option.split)

lemma currentFilters_chart_resume [simp]:
  "currentFilters (loadTimeChart_resume r s) = currentFilters s"
  "currentFilters (loadSpeedChart_resume r s) = currentFilters s"
  by (simp_all add: loadTimeChart_resume_def loadSpeedChart_resume_def loadCharts_resume_def)

lemma currentFilters_edit [simp]: "currentFilters (edit c v s) = currentFilters s"
  by (cases c) simp_all

lemma step_filterKeysOk: "filterKeysOk (currentFilters s) \<Longrightarrow> filterKeysOk (currentFilters (step e s))"
proof (cases e)
  case ClickApply
  assume "filterKeysOk (currentFilters s)"
  then show ?thesis
    using ClickApply currentFilters_applyFilters [of s] filterKeysOk_activeFilters [of s]
    by (cases "isLoading s") (simp_all add: applyFilters_def)
qed (simp_all add: nextPage_def previousPage_def resetFilters_def)

lemma run_filterKeysOk: "filterKeysOk (currentFilters s) \<Longrightarrow> filterKeysOk (currentFilters (run evs s))"
  by (induction evs arbitrary: s) (simp_all add: step_filterKeysOk)

lemma reachable_filterKeysOk: "filterKeysOk (currentFilters (run evs (domContentLoaded (initialPage doc))))"
  by (rule run_filterKeysOk)
     (simp add: domContentLoaded_def initialPage_def loadCharts_def loadStatistics_def
        loadTimeChart_def loadSpeedChart_def fetch_def)

text \<open>
  Claim C3. In every state the page reaches the filters have the keys \<open>applyFilters\<close>
  writes; and when \<open>loadTrips\<close> passes its guard with such filters, on page number
  \<open>N = currentPage\<close>, it sends one request, to \<open>/api/trips\<close>, with \<open>limit\<close> 50, \<open>offset\<close>
  \<open>(N - 1) * 50\<close>, and after them the active filters as further parameters.
\<close>

theorem loadTrips_request:
  "filterKeysOk (currentFilters (run evs (domContentLoaded (initialPage doc)))) \<and>
   (\<not> isLoading s \<and> filterKeysOk (currentFilters s) \<longrightarrow>
      requests (loadTrips c s) =
        requests s @
          [\<lparr>req_path = ''/api/trips'',
            req_params = [(''limit'', PNum 50), (''offset'', PNum ((currentPage s - 1) * 50))] @
                         map (\<lambda>(k, v). (k, PStr v)) (currentFilters s)\<rparr>])"
  using reachable_filterKeysOk [of evs doc] loadTrips_requests_eq [of s c] by blast

theorem loadTrips_request_witness:
  "\<not> isLoading pageTwoIdle \<and> filterKeysOk (currentFilters pageTwoIdle) \<and>
   currentPage pageTwoIdle = 2 \<and>
   requests (loadTrips NotAwaited pageTwoIdle) =
     requests pageTwoIdle @
       [\<lparr>req_path = ''/api/trips'',
         req_params = [(''limit'', PNum 50), (''offset'', PNum 50),
                       (''time_of_day'', PStr ''morning'')]\<rparr>]"
proof -
  have a: "\<not> isLoading pageTwoIdle"
    and c: "currentPage pageTwoIdle = 2"
    and f: "currentFilters pageTwoIdle = [(''time_of_day'', ''morning'')]"
    unfolding pageTwoIdle_eval pageTwoLoading_eval chartsDone_eval
    by (simp_all add: blankDocument_def)
  have b: "filterKeysOk (currentFilters pageTwoIdle)"
    unfolding f by (simp add: filterKeysOk_def)
  show ?thesis
    using loadTrips_request [of "[]" blankDocument pageTwoIdle NotAwaited] a b c f by simp
qed

subsection \<open>Applying and resetting filters\<close>

text \<open>
  Claim C7, as amended. With no load in flight, \<open>applyFilters\<close> sets the page to 1, makes the
  non-empty values of the filter controls the current filters, and sends the trip request
  with \<open>limit\<close> 50, \<open>offset\<close> 0 and exactly these filters; \<open>resetFilters\<close> empties the
  controls and the filters, sets the page to 1, and sends the trip request with \<open>limit\<close>
  50 and \<open>offset\<close> 0 only.
\<close>

theorem applyFilters_resetFilters:
  assumes "\<not> isLoading s"
  shows "currentPage (applyFilters s) = 1 \<and>
     currentFilters (applyFilters s) = activeFilters s \<and>
     requests (applyFilters s) =
       requests s @
         [\<lparr>req_path = ''/api/trips'',
           req_params = [(''limit'', PNum 50), (''offset'', PNum 0)] @
                        map (\<lambda>(k, v). (k, PStr v)) (activeFilters s)\<rparr>] \<and>
     currentPage (resetFilters s) = 1 \<and>
     currentFilters (resetFilters s) = [] \<and>
     timeOfDay (resetFilters s) = [] \<and> speedCategory (resetFilters s) = [] \<and>
     minDistance (resetFilters s) = [] \<and> maxDistance (resetFilters s) = [] \<and>
     requests (resetFilters s) =
       requests s @
         [\<lparr>req_path = ''/api/trips'',
           req_params = [(''limit'', PNum 50), (''offset'', PNum 0)]\<rparr>]"
proof -
  let ?a = "s\<lparr>applyBtn_disabled := True, applyBtn_text := ''Applying...'',
            currentFilters := activeFilters s, currentPage := 1\<rparr>"
  let ?r = "s\<lparr>timeOfDay := [], speedCategory := [], minDistance := [], maxDistance := [],
          currentFilters := [], currentPage := 1\<rparr>"
  have "requests (loadTrips AwaitedByApplyFilters ?a) =
      requests ?a @
       [\<lparr>req_path = ''/api/trips'',
         req_params = [(''limit'', PNum 50), (''offset'', PNum ((currentPage ?a - 1) * 50))] @
                      map (\<lambda>(k, v). (k, PStr v)) (currentFilters ?a)\<rparr>]"
    by (rule loadTrips_requests_eq) (simp_all add: assms filterKeysOk_activeFilters)
  then have apply_req: "requests (applyFilters s) =
       requests s @
         [\<lparr>req_path = ''/api/trips'',
           req_params = [(''limit'', PNum 50), (''offset'', PNum 0)] @
                        map (\<lambda>(k, v). (k, PStr v)) (activeFilters s)\<rparr>]"
    by (simp add: applyFilters_idle [OF assms])
  have "requests (loadTrips NotAwaited ?r) =
      requests ?r @
       [\<lparr>req_path = ''/api/trips'',
         req_params = [(''limit'', PNum 50), (''offset'', PNum ((currentPage ?r - 1) * 50))] @
                      map (\<lambda>(k, v). (k, PStr v)) (currentFilters ?r)\<rparr>]"
    by (rule loadTrips_requests_eq) (simp_all add: assms)
  then have reset_req: "requests (resetFilters s) =
       requests s @
         [\<lparr>req_path = ''/api/trips'',
           req_params = [(''limit'', PNum 50), (''offset'', PNum 0)]\<rparr>]"
    by (simp add: resetFilters_def)
  have form: "timeOfDay (resetFilters s) = [] \<and> speedCategory (resetFilters s) = [] \<and>
     minDistance (resetFilters s) = [] \<and> maxDistance (resetFilters s) = []"
    using assms by (simp add: resetFilters_def loadTrips_def fetch_def Let_def)
  show ?thesis
    using assms apply_req reset_req form
    by (simp add: currentPage_applyFilters currentPage_resetFilters currentFilters_applyFilters
        resetFilters_def)
qed

theorem applyFilters_resetFilters_witness:
  "\<not> isLoading filtersTyped \<and> currentPage filtersTyped = 2 \<and>
   currentPage (applyFilters filtersTyped) = 1 \<and>
   currentFilters (applyFilters filtersTyped) = [(''time_of_day'', ''morning''), (''max_distance'', ''5'')] \<and>
   last (requests (applyFilters filtersTyped)) =
     \<lparr>req_path = ''/api/trips'',
      req_params = [(''limit'', PNum 50), (''offset'', PNum 0),
                    (''time_of_day'', PStr ''morning''), (''max_distance'', PStr ''5'')]\<rparr> \<and>
   currentPage (resetFilters filtersTyped) = 1 \<and>
   currentFilters (resetFilters filtersTyped) = [] \<and>
   last (requests (resetFilters filtersTyped)) =
     \<lparr>req_path = ''/api/trips'', req_params = [(''limit'', PNum 50), (''offset'', PNum 0)]\<rparr>"
proof -
  have ev: "filtersTyped = pageTwoIdle\<lparr>timeOfDay := ''morning'', maxDistance := ''5''\<rparr>"
    by (simp add: filtersTyped_def)
  have a: "\<not> isLoading filtersTyped" and c: "currentPage filtersTyped = 2"
    unfolding ev pageTwoIdle_eval pageTwoLoading_eval chartsDone_eval
    by (simp_all add: blankDocument_def)
  have af: "activeFilters filtersTyped = [(''time_of_day'', ''morning''), (''max_distance'', ''5'')]"
    unfolding ev pageTwoIdle_eval pageTwoLoading_eval chartsDone_eval
    by (simp add: activeFilters_def blankDocument_def)
  show ?thesis
    using applyFilters_resetFilters [OF a] a c af by simp
qed

text \<open>
  Claim C7 as stated fails while a load is in flight, where \<open>applyFilters\<close> returns at
  its guard: on \<open>pageTwoLoading\<close>, with a new value typed into a filter control, it
  leaves the page at 2 and the filters as they were, and sends nothing.
\<close>

theorem applyFilters_while_loading_unchanged:
  "isLoading pageTwoLoading \<and>
   maxDistance (step (Edit MaxDistance ''5'') pageTwoLoading) = ''5'' \<and>
   currentPage applyWhileLoading = 2 \<and>
   currentFilters applyWhileLoading = [(''time_of_day'', ''morning'')] \<and>
   requests applyWhileLoading = requests pageTwoLoading"
  unfolding applyWhileLoading_def pageTwoLoading_eval chartsDone_eval
  by (simp add: applyFilters_def blankDocument_def)

section \<open>Properties of the page load\<close>

subsection \<open>Each loader of the dashboard script writes its own region only\<close>

lemma own_shared [simp]:
  "own l (s\<lparr>alerts := a\<rparr>) = own l s"
  "own l (s\<lparr>consoleErrors := b\<rparr>) = own l s"
  "own l (s\<lparr>consoleLogs := c\<rparr>) = own l s"
  "own l (s\<lparr>fetches := d\<rparr>) = own l s"
  "own l (s\<lparr>destroyedCharts := e\<rparr>) = own l s"
  "own l (s\<lparr>overlayHidden := f\<rparr>) = own l s"
  "own l (s\<lparr>initDashboardWaiting := g\<rparr>) = own l s"
  by (cases l; simp add: own_def)+

lemma own_fetchData [simp]: "own l (fst (fetchData r s)) = own l s"
  by (cases r) (simp_all add: fetchData_def)

lemma own_fetchData_send [simp]: "own l (fetchData_send ep s) = own l s"
  by (simp add: fetchData_send_def)

lemma own_destroyOld [simp]: "own l (destroyOld c s) = own l s"
  by (cases c) (simp_all add: destroyOld_def)

lemma own_hideLoading [simp]: "own l (hideLoading s) = own l s"
  by (simp add: hideLoading_def)














lemma own_insightsStage [simp]: "l \<noteq> Insights \<Longrightarrow> own l (s\<lparr>insightsStage := n\<rparr>) = own l s"
  by (cases l) (simp_all add: own_def)




text \<open>And what it writes depends on its own region, promise and stage only.\<close>

lemmas loader_defs =
  loadStats_resume_def loadHourlyChart_resume_def loadDailyChart_resume_def
  loadSpeedChart_dash_resume_def loadDurationChart_resume_def loadTrips_dash_resume_def
  generateInsights_resume_def
  loadStats_body_def loadHourlyChart_body_def loadDailyChart_body_def loadSpeedChart_body_def
  loadDurationChart_body_def loadTrips_dash_body_def insightPeakHours_body_def
  insightSpeed_body_def insightWeekly_body_def
  fetchData_def fetchData_send_def whenSuccessful_def destroyOld_def outcome_def






subsection \<open>The same for the paginated script\<close>

lemma ownP_shared [simp]:
  "ownP w (s\<lparr>currentPage := a\<rparr>) = ownP w s"
  "ownP w (s\<lparr>currentFilters := b\<rparr>) = ownP w s"
  "ownP w (s\<lparr>isLoading := c\<rparr>) = ownP w s"
  "ownP w (s\<lparr>timeOfDay := d\<rparr>) = ownP w s"
  "ownP w (s\<lparr>speedCategory := d\<rparr>) = ownP w s"
  "ownP w (s\<lparr>minDistance := d\<rparr>) = ownP w s"
  "ownP w (s\<lparr>maxDistance := d\<rparr>) = ownP w s"
  "ownP w (s\<lparr>applyBtn_disabled := c\<rparr>) = ownP w s"
  "ownP w (s\<lparr>applyBtn_text := d\<rparr>) = ownP w s"
  "ownP w (s\<lparr>prevBtn_disabled := c\<rparr>) = ownP w s"
  "ownP w (s\<lparr>nextBtn_disabled := c\<rparr>) = ownP w s"
  "ownP w (s\<lparr>tableContainer := e\<rparr>) = ownP w s"
  "ownP w (s\<lparr>currentPage_text := f\<rparr>) = ownP w s"
  "ownP w (s\<lparr>errorBanners := g\<rparr>) = ownP w s"
  "ownP w (s\<lparr>console := g\<rparr>) = ownP w s"
  "ownP w (s\<lparr>requests := h\<rparr>) = ownP w s"
  "ownP w (s\<lparr>pendingTrips := i\<rparr>) = ownP w s"
  "ownP w (s\<lparr>pendingCharts := c\<rparr>) = ownP w s"
  by (cases w; simp add: ownP_def)+

lemma ownP_loadTrips [simp]: "ownP w (loadTrips c s) = ownP w s"
  by (simp add: loadTrips_def fetch_def applyFilters_finally_def Let_def split: caller.split)

lemma ownP_setFilter [simp]: "ownP w (setFilter k v s) = ownP w s"
  by (simp add: setFilter_def)

lemma ownP_applyFilters [simp]: "ownP w (applyFilters s) = ownP w s"
  by (simp add: applyFilters_def Let_def)

lemma ownP_user [simp]:
  "ownP w (resetFilters s) = ownP w s"
  "ownP w (nextPage s) = ownP w s"
  "ownP w (previousPage s) = ownP w s"
  "ownP w (edit c v s) = ownP w s"
  by (cases c; simp add: resetFilters_def nextPage_def previousPage_def)+

lemma ownP_loadTrips_resume [simp]: "ownP w (loadTrips_resume i r s) = ownP w s"
  by (simp add: loadTrips_resume_def loadTrips_complete_def loadTrips_try_def loadTrips_catch_def
      applyFilters_finally_def Let_def
      split: caller.split fetched.split trips_json.split sum.split)

lemma ownP_loadCharts_resume [simp]: "ownP w (loadCharts_resume s) = ownP w s"
  by (simp add: loadCharts_resume_def)










text \<open>
  At its page load the paginated script sends three requests and none for the trips:
  \<open>loadCharts\<close> has set \<open>isLoading\<close> when \<open>loadTrips\<close> is called, which returns at its
  guard.
\<close>

lemma domContentLoaded_requests:
  "requests (domContentLoaded (initialPage doc)) =
     [\<lparr>req_path = ''/api/stats'', req_params = []\<rparr>,
      \<lparr>req_path = ''/api/patterns/time'', req_params = []\<rparr>,
      \<lparr>req_path = ''/api/patterns/speed'', req_params = []\<rparr>] \<and>
   pendingTrips (domContentLoaded (initialPage doc)) = [] \<and>
   tableContainer (domContentLoaded (initialPage doc)) = tableContainer doc"
  by (simp add: domContentLoaded_def initialPage_def loadStatistics_def loadCharts_def
      loadTimeChart_def loadSpeedChart_def loadTrips_def fetch_def)

subsection \<open>The example page loads, evaluated\<close>

lemmas dashboard_defs =
  dashboardLoading_def domContentLoaded_dash_def initialDashboard_def blankDashboard_def
  initDashboard_def showLoading_def hideLoading_def loadStats_def loadHourlyChart_def
  loadDailyChart_def loadSpeedChart_dash_def loadDurationChart_def loadTrips_dash_def
  generateInsights_def start_def queryString_def noFilters_def API_URL_def
  stepD_def settle_def initDashboard_resume_def loaders_def

lemma dashboardLoading_status: "status dashboardLoading l = Pending"
  by (cases l) (simp_all add: dashboard_defs fetchData_send_def Let_def)

lemma dashboardLoading_fields:
  "alerts dashboardLoading = []" "consoleErrors dashboardLoading = []"
  "insightsStage dashboardLoading = 0" "initDashboardWaiting dashboardLoading"
  "hourlyChart dashboardLoading = None" "overlayHidden dashboardLoading = False"
  "el_total_trips dashboardLoading = []" "el_avg_duration dashboardLoading = []"
  "el_avg_speed dashboardLoading = []" "el_common_passengers dashboardLoading = []"
  by (simp_all add: dashboard_defs fetchData_send_def Let_def)







subsection \<open>Failed fetches and unsuccessful bodies\<close>

lemma region_shared [simp]:
  "region l (s\<lparr>alerts := a\<rparr>) = region l s"
  "region l (s\<lparr>consoleErrors := b\<rparr>) = region l s"
  "region l (s\<lparr>fetches := d\<rparr>) = region l s"
  "region l (s\<lparr>insightsStage := n\<rparr>) = region l s"
  by (cases l; simp)+

lemma resume_fetchFailed:
  assumes "awaited e s" and "fetchFailed e"
  shows "region l (fst (resume e s)) = region l s \<and>
         alerts (fst (resume e s)) = alerts s @ [backendAlert] \<and>
         consoleErrors (fst (resume e s)) = consoleErrors s @ [''Error fetching data:''] \<and>
         snd (resume e s) \<noteq> Rejected"
proof (cases e)
  case (InsightsArrived resp)
  then show ?thesis using assms
    by (cases resp)
       (simp_all add: loader_defs isFetchFailed_def Let_def split: fetched.splits)
qed (use assms in \<open>simp_all add: loader_defs isFetchFailed_def Let_def split: fetched.splits\<close>)

lemma resume_unsuccessful:
  assumes "awaited e s" and "unsuccessful e"
  shows "region l (fst (resume e s)) = region l s \<and>
         alerts (fst (resume e s)) = alerts s \<and>
         consoleErrors (fst (resume e s)) = consoleErrors s \<and>
         snd (resume e s) \<noteq> Rejected"
proof (cases e)
  case (InsightsArrived resp)
  then show ?thesis using assms
    by (cases resp)
       (simp_all add: loader_defs isUnsuccessful_def Let_def split: fetched.splits)
qed (use assms in \<open>simp_all add: loader_defs isUnsuccessful_def Let_def split: fetched.splits\<close>)

text \<open>
  Claim C5, as amended. On a failed fetch and on a body whose \<open>success\<close> is false
  alike, a loader of the dashboard script renders nothing (every region stays as it was)
  and its promise is not rejected. The two are not handled identically beyond that:
  the failed fetch is logged and alerted by \<open>fetchData\<close>, the unsuccessful body
  raises no alert and logs no error.
\<close>

theorem failed_and_unsuccessful_responses:
  assumes "awaited e s"
  shows "(fetchFailed e \<longrightarrow>
            (\<forall>l. region l (fst (resume e s)) = region l s) \<and>
            alerts (fst (resume e s)) = alerts s @ [backendAlert] \<and>
            consoleErrors (fst (resume e s)) = consoleErrors s @ [''Error fetching data:''] \<and>
            snd (resume e s) \<noteq> Rejected) \<and>
         (unsuccessful e \<longrightarrow>
            (\<forall>l. region l (fst (resume e s)) = region l s) \<and>
            alerts (fst (resume e s)) = alerts s \<and>
            consoleErrors (fst (resume e s)) = consoleErrors s \<and>
            snd (resume e s) \<noteq> Rejected)"
  using resume_fetchFailed [OF assms] resume_unsuccessful [OF assms] by blast

theorem failed_and_unsuccessful_responses_witness:
  "awaited (HoursArrived FetchFailed) dashboardLoading \<and>
   fetchFailed (HoursArrived FetchFailed) \<and>
   alerts (fst (resume (HoursArrived FetchFailed) dashboardLoading)) = [backendAlert] \<and>
   region HourlyChart (fst (resume (HoursArrived FetchFailed) dashboardLoading)) = ChartRegion None \<and>
   awaited (StatsArrived (Parsed \<lparr>success = False, payload = None\<rparr>)) dashboardLoading \<and>
   unsuccessful (StatsArrived (Parsed \<lparr>success = False, payload = None\<rparr>)) \<and>
   alerts (fst (resume (StatsArrived (Parsed \<lparr>success = False, payload = None\<rparr>)) dashboardLoading)) = [] \<and>
   region Stats (fst (resume (StatsArrived (Parsed \<lparr>success = False, payload = None\<rparr>)) dashboardLoading)) =
     StatsRegion [] [] [] []"
proof -
  have a: "awaited (HoursArrived FetchFailed) dashboardLoading"
    and b: "fetchFailed (HoursArrived FetchFailed)"
    and c: "awaited (StatsArrived (Parsed \<lparr>success = False, payload = None\<rparr>)) dashboardLoading"
    and d: "unsuccessful (StatsArrived (Parsed \<lparr>success = False, payload = None\<rparr>))"
    by (simp_all add: isFetchFailed_def isUnsuccessful_def)
  show ?thesis
    using failed_and_unsuccessful_responses [OF a] failed_and_unsuccessful_responses [OF c] a b c d
    by (simp add: dashboardLoading_fields)
qed

text \<open>
  Claim C5 as stated fails on the unsuccessful body: when the statistics loader of the
  loading dashboard receives \<open>{ success: false }\<close>, the whole step raises no alert and
  logs no error, whereas a failed fetch raises the alert of \<open>fetchData\<close>.
\<close>

theorem unsuccessful_response_is_silent:
  "status dashboardLoading Stats = Pending \<and>
   alerts (stepD (StatsArrived (Parsed \<lparr>success = False, payload = None\<rparr>)) dashboardLoading) = [] \<and>
   consoleErrors (stepD (StatsArrived (Parsed \<lparr>success = False, payload = None\<rparr>)) dashboardLoading) = [] \<and>
   alerts (stepD (StatsArrived FetchFailed) dashboardLoading) = [backendAlert]"
proof -
  have p: "status dashboardLoading l = Pending" for l by (rule dashboardLoading_status)
  show ?thesis
    by (simp add: p stepD_def settle_def initDashboard_resume_def loaders_def loader_defs
        dashboardLoading_fields)
qed

end
